theory Spec2Isabelle
  imports Complex_Main "HOL-Library.Word" "HOL-Library.Multiset"
begin

section \<open>JavaScript strings and numbers\<close>

text \<open>
  A JavaScript string is a sequence of 16-bit code units. String literals of the source
  are ASCII and are written through \<open>ustr\<close>.

  The Numbers of the history handler are IEEE doubles whose values are integers, NaN or
  an infinity; every operation on them rounds its exact result to the nearest double.
\<close>

type_synonym jsstring = "16 word list"

definition ustr :: "string \<Rightarrow> jsstring" where
  "ustr s = map (\<lambda>c. of_nat (of_char c)) s"

text \<open>ECMAScript WhiteSpace and LineTerminator code points, as \<open>trim\<close> and \<open>parseInt\<close> strip them.\<close>

definition isWhiteSpace :: "16 word \<Rightarrow> bool" where
  "isWhiteSpace c \<longleftrightarrow>
     c = 0x0009 \<or> c = 0x000A \<or> c = 0x000B \<or> c = 0x000C \<or> c = 0x000D \<or> c = 0x0020 \<or>
     c = 0x00A0 \<or> c = 0x1680 \<or> (0x2000 \<le> c \<and> c \<le> 0x200A) \<or> c = 0x2028 \<or> c = 0x2029 \<or>
     c = 0x202F \<or> c = 0x205F \<or> c = 0x3000 \<or> c = 0xFEFF"

definition trimStart :: "jsstring \<Rightarrow> jsstring" where
  "trimStart s = dropWhile isWhiteSpace s"

definition trimEnd :: "jsstring \<Rightarrow> jsstring" where
  "trimEnd s = rev (dropWhile isWhiteSpace (rev s))"

definition trim :: "jsstring \<Rightarrow> jsstring" where
  "trim s = trimEnd (trimStart s)"

text \<open>\<open>String.prototype.includes\<close> from position 0: the argument occurs as a contiguous run.\<close>

fun startsWith :: "jsstring \<Rightarrow> jsstring \<Rightarrow> bool" where
  "startsWith s [] = True"
| "startsWith [] (c # cs) = False"
| "startsWith (d # ds) (c # cs) = (d = c \<and> startsWith ds cs)"

fun includesStr :: "jsstring \<Rightarrow> jsstring \<Rightarrow> bool" where
  "includesStr [] t = (t = [])"
| "includesStr (d # ds) t = (startsWith (d # ds) t \<or> includesStr ds t)"

subsection \<open>Numbers\<close>

text \<open>
  \<open>Num n\<close> is the double whose value is the integer \<open>n\<close>. Both zeros are \<open>Num 0\<close>: the
  handlers do not tell them apart.
\<close>

datatype number = NaN | Num int | PosInf | NegInf

text \<open>The number of binary digits of a natural number.\<close>

function bits :: "nat \<Rightarrow> nat" where
  "bits n = (if n = 0 then 0 else Suc (bits (n div 2)))"
  by pat_completeness auto
termination
  by (relation "measure id") auto

declare bits.simps [simp del]

text \<open>The integer nearest to \<open>a / b\<close>, the even one of two that are equally near.\<close>

definition roundHalfEven :: "nat \<Rightarrow> nat \<Rightarrow> nat" where
  "roundHalfEven a b =
     (let q = a div b; r = a mod b
      in if b < 2 * r \<or> (2 * r = b \<and> odd q) then q + 1 else q)"

text \<open>
  The double nearest to an integer. Up to \<open>2 ^ 53\<close> in magnitude every integer is a
  double. Beyond, the integer is rounded to 53 significant binary digits, and to an
  infinity when the rounded magnitude reaches \<open>2 ^ 1024\<close>.
\<close>

definition roundToDouble :: "int \<Rightarrow> number" where
  "roundToDouble n =
     (if \<bar>n\<bar> \<le> 2 ^ 53 then Num n
      else
        let m = nat \<bar>n\<bar>; e = bits m - 53; r = roundHalfEven m (2 ^ e) * 2 ^ e
        in if 2 ^ 1024 \<le> r then (if n < 0 then NegInf else PosInf)
           else Num (sgn n * int r))"

fun numSub :: "number \<Rightarrow> number \<Rightarrow> number" where
  "numSub NaN y = NaN"
| "numSub x NaN = NaN"
| "numSub (Num a) (Num b) = roundToDouble (a - b)"
| "numSub (Num a) PosInf = NegInf"
| "numSub (Num a) NegInf = PosInf"
| "numSub PosInf PosInf = NaN"
| "numSub PosInf y = PosInf"
| "numSub NegInf NegInf = NaN"
| "numSub NegInf y = NegInf"

fun numMul :: "number \<Rightarrow> number \<Rightarrow> number" where
  "numMul NaN y = NaN"
| "numMul x NaN = NaN"
| "numMul (Num a) (Num b) = roundToDouble (a * b)"
| "numMul (Num a) PosInf = (if a = 0 then NaN else if a < 0 then NegInf else PosInf)"
| "numMul (Num a) NegInf = (if a = 0 then NaN else if a < 0 then PosInf else NegInf)"
| "numMul PosInf (Num b) = (if b = 0 then NaN else if b < 0 then NegInf else PosInf)"
| "numMul NegInf (Num b) = (if b = 0 then NaN else if b < 0 then PosInf else NegInf)"
| "numMul PosInf PosInf = PosInf"
| "numMul PosInf NegInf = NegInf"
| "numMul NegInf PosInf = NegInf"
| "numMul NegInf NegInf = PosInf"

text \<open>\<open>x < y\<close>, which is false when either is NaN.\<close>

fun numLess :: "number \<Rightarrow> number \<Rightarrow> bool" where
  "numLess NaN y = False"
| "numLess x NaN = False"
| "numLess (Num a) (Num b) = (a < b)"
| "numLess (Num a) PosInf = True"
| "numLess (Num a) NegInf = False"
| "numLess PosInf y = False"
| "numLess NegInf NegInf = False"
| "numLess NegInf y = True"

text \<open>
  The double nearest to \<open>n / l\<close>, for a positive \<open>l\<close>: \<open>e\<close> is the exponent of the
  quotient, \<open>2 ^ e \<le> n / l < 2 ^ (e + 1)\<close>, and the quotient is rounded to a multiple of
  \<open>2 ^ (e - 52)\<close>. (The quotients of the handler, a count by a limit between 1 and 100,
  are in the range of the normal doubles.)
\<close>

definition quotientDouble :: "nat \<Rightarrow> nat \<Rightarrow> rat" where
  "quotientDouble n l =
     (if n = 0 then 0
      else
        let d = int (bits n) - int (bits l);
            e = (if (if 0 \<le> d then l * 2 ^ nat d \<le> n else l \<le> n * 2 ^ nat (- d)) then d
                 else d - 1);
            s = 52 - e
        in if 0 \<le> s then of_nat (roundHalfEven (n * 2 ^ nat s) l) / 2 ^ nat s
           else of_nat (roundHalfEven n (l * 2 ^ nat (- s)) * 2 ^ nat (- s)))"

text \<open>\<open>Math.ceil(total / limit)\<close> for a count \<open>total\<close>.\<close>

fun ceilOfQuotient :: "nat \<Rightarrow> number \<Rightarrow> number" where
  "ceilOfQuotient n NaN = NaN"
| "ceilOfQuotient n PosInf = Num 0"
| "ceilOfQuotient n NegInf = Num 0"
| "ceilOfQuotient n (Num l) =
     (if l = 0 then (if n = 0 then NaN else PosInf)
      else if 0 < l then Num \<lceil>quotientDouble n (nat l)\<rceil>
      else Num \<lceil>- quotientDouble n (nat (- l))\<rceil>)"

subsection \<open>parseInt with no radix argument\<close>

definition digitValue :: "16 word \<Rightarrow> nat option" where
  "digitValue c =
     (if 0x30 \<le> c \<and> c \<le> 0x39 then Some (unat c - 0x30)
      else if 0x61 \<le> c \<and> c \<le> 0x7A then Some (unat c - 0x61 + 10)
      else if 0x41 \<le> c \<and> c \<le> 0x5A then Some (unat c - 0x41 + 10)
      else None)"

definition isRadixDigit :: "nat \<Rightarrow> 16 word \<Rightarrow> bool" where
  "isRadixDigit R c = (case digitValue c of None \<Rightarrow> False | Some d \<Rightarrow> d < R)"

definition mathInt :: "nat \<Rightarrow> jsstring \<Rightarrow> nat" where
  "mathInt R Z = foldl (\<lambda>a c. case digitValue c of None \<Rightarrow> a | Some d \<Rightarrow> a * R + d) 0 Z"

text \<open>
  The steps of ECMAScript's \<open>parseInt(string)\<close>: strip leading white space, read a sign,
  switch to radix 16 after a \<open>0x\<close> or \<open>0X\<close> prefix, take the longest run of digits of the
  radix, and answer NaN when that run is empty, and otherwise the double nearest to the
  signed value of the run. Whatever follows the run is ignored.
\<close>

definition parseInt :: "jsstring \<Rightarrow> number" where
  "parseInt inputString =
     (let S = trimStart inputString;
          sign = (if S \<noteq> [] \<and> hd S = 0x2D then - 1 else 1);
          S = (if S \<noteq> [] \<and> (hd S = 0x2B \<or> hd S = 0x2D) then tl S else S);
          stripPrefix = (2 \<le> length S \<and> (take 2 S = ustr ''0x'' \<or> take 2 S = ustr ''0X''));
          R = (if stripPrefix then 16 else 10);
          S = (if stripPrefix then drop 2 S else S);
          Z = takeWhile (isRadixDigit R) S
      in if Z = [] then NaN else roundToDouble (sign * int (mathInt R Z)))"

text \<open>
  A query parameter is a string or \<open>undefined\<close>; \<open>parseInt\<close> first converts its argument
  with ToString.
\<close>

definition toString :: "jsstring option \<Rightarrow> jsstring" where
  "toString v = (case v of None \<Rightarrow> ustr ''undefined'' | Some s \<Rightarrow> s)"

text \<open>\<open>n || d\<close> on Numbers: NaN and zero are falsy.\<close>

definition orDefault :: "number \<Rightarrow> number \<Rightarrow> number" where
  "orDefault n d = (case n of NaN \<Rightarrow> d | Num k \<Rightarrow> if k = 0 then d else n | _ \<Rightarrow> n)"

text \<open>Truthiness of a value that is a string or \<open>undefined\<close>.\<close>

definition truthyString :: "jsstring option \<Rightarrow> bool" where
  "truthyString v = (case v of None \<Rightarrow> False | Some s \<Rightarrow> s \<noteq> [])"

section \<open>The persisted entities and the persistence gateway\<close>

record user =
  u_id :: jsstring
  u_email :: "jsstring option"
  u_name :: "jsstring option"
  u_createdAt :: int
  u_updatedAt :: int

record generation =
  g_id :: jsstring
  g_prompt :: jsstring
  g_language :: jsstring
  g_code :: jsstring
  g_userId :: "jsstring option"
  g_createdAt :: int

record store =
  users :: "user list"
  generations :: "generation list"

text \<open>
  What a \<open>catch\<close> clause reads of a thrown value: its \<open>message\<close> and its \<open>status\<close>,
  each of which may be missing.
\<close>

record js_error =
  e_message :: "jsstring option"
  e_status :: "nat option"

datatype db_op = UserFindUnique | GenerationCreate | GenerationCount | GenerationFindMany

text \<open>
  The collaborators of a request: whether a gateway operation rejects (and with what);
  for a create, the identifier and the timestamp the store assigns; and, for a read
  ordered by \<open>createdAt\<close> alone, the order in which the store returns generations of the
  same \<open>createdAt\<close>, which is the store's to choose: by a rank it gives them, and in the
  order they are held where the ranks are equal too; and what a read answers, from the
  ordered rows, to a \<open>skip\<close> that is not below \<open>2 ^ 63\<close>: an error, or some rows.
\<close>

record gateway =
  db_error :: "db_op \<Rightarrow> js_error option"
  new_id :: jsstring
  now :: int
  tie_rank :: "generation \<Rightarrow> int"
  oversized_skip :: "generation list \<Rightarrow> js_error + generation list"

record user_select =
  s_id :: jsstring
  s_name :: "jsstring option"
  s_email :: "jsstring option"

record history_item =
  h_generation :: generation
  h_user :: "user_select option"

definition user_findUnique :: "gateway \<Rightarrow> store \<Rightarrow> jsstring \<Rightarrow> js_error + user option" where
  "user_findUnique gw s i =
     (case db_error gw UserFindUnique of
        Some e \<Rightarrow> Inl e
      | None \<Rightarrow> Inr (find (\<lambda>u. u_id u = i) (users s)))"

definition matches :: "jsstring option \<Rightarrow> generation \<Rightarrow> bool" where
  "matches wh g = (case wh of None \<Rightarrow> True | Some l \<Rightarrow> g_language g = l)"

definition generation_count :: "gateway \<Rightarrow> store \<Rightarrow> jsstring option \<Rightarrow> js_error + nat" where
  "generation_count gw s wh =
     (case db_error gw GenerationCount of
        Some e \<Rightarrow> Inl e
      | None \<Rightarrow> Inr (length (filter (matches wh) (generations s))))"

definition orderByCreatedAtDesc :: "gateway \<Rightarrow> generation list \<Rightarrow> generation list" where
  "orderByCreatedAtDesc gw gs = sort_key (\<lambda>g. - g_createdAt g) (sort_key (tie_rank gw) gs)"

text \<open>
  \<open>skip\<close> and \<open>take\<close> of a read. The handler passes a \<open>take\<close> between 1 and 100 and a
  \<open>skip\<close> that is a non-negative integer or the positive infinity. A \<open>skip\<close> below
  \<open>2 ^ 63\<close> is an offset into the ordered rows; the answer to any other is the gateway's.
\<close>

definition skipRows :: "gateway \<Rightarrow> number \<Rightarrow> generation list \<Rightarrow> js_error + generation list" where
  "skipRows gw skip xs =
     (case skip of
        Num k \<Rightarrow> if k < 2 ^ 63 then Inr (drop (nat k) xs) else oversized_skip gw xs
      | _ \<Rightarrow> oversized_skip gw xs)"

definition takeRows :: "number \<Rightarrow> 'a list \<Rightarrow> 'a list" where
  "takeRows tk xs = (case tk of Num k \<Rightarrow> take (nat k) xs | _ \<Rightarrow> xs)"

definition includeUser :: "store \<Rightarrow> generation \<Rightarrow> history_item" where
  "includeUser s g =
     \<lparr>h_generation = g,
      h_user = (case g_userId g of
                  None \<Rightarrow> None
                | Some i \<Rightarrow> map_option (\<lambda>u. \<lparr>s_id = u_id u, s_name = u_name u, s_email = u_email u\<rparr>)
                            (find (\<lambda>u. u_id u = i) (users s)))\<rparr>"

definition generation_findMany ::
  "gateway \<Rightarrow> store \<Rightarrow> jsstring option \<Rightarrow> number \<Rightarrow> number \<Rightarrow> js_error + history_item list" where
  "generation_findMany gw s wh skip tk =
     (case db_error gw GenerationFindMany of
        Some e \<Rightarrow> Inl e
      | None \<Rightarrow>
          (case skipRows gw skip (orderByCreatedAtDesc gw (filter (matches wh) (generations s))) of
             Inl e \<Rightarrow> Inl e
           | Inr rows \<Rightarrow> Inr (map (includeUser s) (takeRows tk rows))))"

text \<open>\<open>Promise.all\<close> of two reads: it rejects as soon as one of them does.\<close>

definition promiseAll :: "js_error + 'a \<Rightarrow> js_error + 'b \<Rightarrow> js_error + 'a \<times> 'b" where
  "promiseAll a b =
     (case a of
        Inl e \<Rightarrow> Inl e
      | Inr x \<Rightarrow> (case b of Inl e \<Rightarrow> Inl e | Inr y \<Rightarrow> Inr (x, y)))"

section \<open>Responses\<close>

record pagination =
  p_page :: number
  p_limit :: number
  p_total :: nat
  p_totalPages :: number
  p_hasNext :: bool
  p_hasPrev :: bool

datatype payload =
    ErrorJson jsstring
  | ErrorMessageJson jsstring jsstring
  | GenerationJson generation
  | HistoryJson "history_item list" pagination

datatype response = Response (status: nat) (body: payload)

section \<open>The history endpoint\<close>

text \<open>
  The query parameters \<open>getHistory\<close> reads, each a string or absent (the source reads
  them \<open>as string\<close>). The handler returns its response and the store it leaves.
\<close>

record history_query =
  q_page :: "jsstring option"
  q_limit :: "jsstring option"
  q_language :: "jsstring option"

definition historySkip :: "number \<Rightarrow> number \<Rightarrow> number" where
  "historySkip page limit = numMul (numSub page (Num 1)) limit"

definition getHistory :: "gateway \<Rightarrow> history_query \<Rightarrow> store \<Rightarrow> response \<times> store" where
  "getHistory gw q s =
     (let page = orDefault (parseInt (toString (q_page q))) (Num 1);
          limit = orDefault (parseInt (toString (q_limit q))) (Num 10);
          language = q_language q
      in if numLess page (Num 1) then
           (Response 400 (ErrorJson (ustr ''Page must be greater than 0'')), s)
         else if numLess limit (Num 1) \<or> numLess (Num 100) limit then
           (Response 400 (ErrorJson (ustr ''Limit must be between 1 and 100'')), s)
         else
           let skip = historySkip page limit;
               wh = (if truthyString language then language else None)
           in case promiseAll (generation_count gw s wh)
                     (generation_findMany gw s wh skip limit) of
                Inl e \<Rightarrow> (Response 500 (ErrorJson (ustr ''Failed to fetch history'')), s)
              | Inr (total', gens) \<Rightarrow>
                  let totalPages = ceilOfQuotient total' limit
                  in (Response 200
                        (HistoryJson gens
                           \<lparr>p_page = page, p_limit = limit, p_total = total',
                            p_totalPages = totalPages,
                            p_hasNext = numLess page totalPages,
                            p_hasPrev = numLess (Num 1) page\<rparr>), s))"

section \<open>JSON values\<close>

text \<open>
  What \<open>JSON.parse\<close> can produce, and \<open>undefined\<close> for a field that is absent. A JSON
  number is the double it was parsed to: a rational, or an infinity for a literal beyond
  the range of the doubles.
\<close>

datatype json_number = Finite rat | PlusInfinity | MinusInfinity

datatype jsval =
    JUndefined
  | JNull
  | JBool bool
  | JNum json_number
  | JStr jsstring
  | JArr "jsval list"
  | JObj "(jsstring \<times> jsval) list"

fun truthy :: "jsval \<Rightarrow> bool" where
  "truthy JUndefined = False"
| "truthy JNull = False"
| "truthy (JBool b) = b"
| "truthy (JNum n) = (n \<noteq> Finite 0)"
| "truthy (JStr s) = (s \<noteq> [])"
| "truthy (JArr xs) = True"
| "truthy (JObj kvs) = True"

fun typeof :: "jsval \<Rightarrow> jsstring" where
  "typeof JUndefined = ustr ''undefined''"
| "typeof JNull = ustr ''object''"
| "typeof (JBool b) = ustr ''boolean''"
| "typeof (JNum n) = ustr ''number''"
| "typeof (JStr s) = ustr ''string''"
| "typeof (JArr xs) = ustr ''object''"
| "typeof (JObj kvs) = ustr ''object''"

text \<open>The string held by a value whose \<open>typeof\<close> is \<open>string\<close>; it is applied to no other.\<close>

fun stringOf :: "jsval \<Rightarrow> jsstring" where
  "stringOf (JStr s) = s"
| "stringOf v = []"

fun nullish :: "jsval \<Rightarrow> bool" where
  "nullish JUndefined = True"
| "nullish JNull = True"
| "nullish v = False"

text \<open>
  Reading a property of a value that is neither \<open>null\<close> nor \<open>undefined\<close>. \<open>getNamed\<close>
  is for the names the handlers read (\<open>error\<close>, \<open>message\<close>, \<open>candidates\<close>, \<open>content\<close>,
  \<open>parts\<close>, \<open>text\<close>), which no prototype defines: only an object can hold them.
  \<open>getIndex0\<close> is the element access \<open>[0]\<close>.
\<close>

fun getNamed :: "jsval \<Rightarrow> jsstring \<Rightarrow> jsval" where
  "getNamed (JObj kvs) k = (case map_of kvs k of None \<Rightarrow> JUndefined | Some v \<Rightarrow> v)"
| "getNamed v k = JUndefined"

fun getIndex0 :: "jsval \<Rightarrow> jsval" where
  "getIndex0 (JObj kvs) = (case map_of kvs (ustr ''0'') of None \<Rightarrow> JUndefined | Some v \<Rightarrow> v)"
| "getIndex0 (JArr xs) = (case xs of [] \<Rightarrow> JUndefined | x # _ \<Rightarrow> x)"
| "getIndex0 (JStr s) = (case s of [] \<Rightarrow> JUndefined | c # _ \<Rightarrow> JStr [c])"
| "getIndex0 v = JUndefined"

text \<open>The optional chain \<open>v?.name\<close> and \<open>v?.[0]\<close>.\<close>

definition optNamed :: "jsval \<Rightarrow> jsstring \<Rightarrow> jsval" where
  "optNamed v k = (if nullish v then JUndefined else getNamed v k)"

definition optIndex0 :: "jsval \<Rightarrow> jsval" where
  "optIndex0 v = (if nullish v then JUndefined else getIndex0 v)"

subsection \<open>ToString\<close>

function showNat :: "nat \<Rightarrow> jsstring" where
  "showNat n = (if n < 10 then [0x30 + of_nat n] else showNat (n div 10) @ [0x30 + of_nat (n mod 10)])"
  by pat_completeness auto
termination
  by (relation "measure id") auto

declare showNat.simps [simp del]

definition showInt :: "int \<Rightarrow> jsstring" where
  "showInt i = (if i < 0 then 0x2D # showNat (nat (- i)) else showNat (nat i))"

text \<open>\<open>Array.prototype.join\<close> on an array of strings.\<close>

fun join :: "jsstring \<Rightarrow> jsstring list \<Rightarrow> jsstring" where
  "join sep [] = []"
| "join sep [x] = x"
| "join sep (x # y # ys) = x @ sep @ join sep (y # ys)"

text \<open>
  ToString of a number. An integer of magnitude up to \<open>2 ^ 53\<close> is written with its
  decimal digits. For every other finite number the text is the one the engine computes
  (the shortest digits that read back as the same double, in exponent form from
  \<open>1e21\<close>): it is taken from the runtime, as the function \<open>numberText\<close>.
\<close>

definition numberToString :: "(rat \<Rightarrow> jsstring) \<Rightarrow> json_number \<Rightarrow> jsstring" where
  "numberToString numberText n =
     (case n of
        Finite q \<Rightarrow>
          if q = of_int \<lfloor>q\<rfloor> \<and> \<bar>q\<bar> \<le> 2 ^ 53 then showInt \<lfloor>q\<rfloor> else numberText q
      | PlusInfinity \<Rightarrow> ustr ''Infinity''
      | MinusInfinity \<Rightarrow> ustr ''-Infinity'')"

fun sequence :: "'a option list \<Rightarrow> 'a list option" where
  "sequence [] = Some []"
| "sequence (None # xs) = None"
| "sequence (Some x # xs) = map_option ((#) x) (sequence xs)"

text \<open>
  ToString of a parsed JSON value; \<open>None\<close> is the TypeError of an object that cannot be
  converted to a primitive, which is one whose own \<open>toString\<close> property hides the
  inherited method. An array is joined with commas, \<open>null\<close> elements giving the empty
  string.
\<close>

fun toStringVal :: "(rat \<Rightarrow> jsstring) \<Rightarrow> jsval \<Rightarrow> jsstring option" where
  "toStringVal nt JUndefined = Some (ustr ''undefined'')"
| "toStringVal nt JNull = Some (ustr ''null'')"
| "toStringVal nt (JBool b) = Some (if b then ustr ''true'' else ustr ''false'')"
| "toStringVal nt (JNum n) = Some (numberToString nt n)"
| "toStringVal nt (JStr s) = Some s"
| "toStringVal nt (JArr xs) =
     map_option (join (ustr '',''))
       (sequence (map (\<lambda>x. if nullish x then Some [] else toStringVal nt x) xs))"
| "toStringVal nt (JObj kvs) =
     (if map_of kvs (ustr ''toString'') = None then Some (ustr ''[object Object]'') else None)"

section \<open>The upstream generation API\<close>

text \<open>
  What \<open>fetch\<close> gives back: a rejection (a transport failure), or a response with its
  status, its status text and the outcome of reading its body as JSON. \<open>ok\<close> is the
  Fetch standard's: the status is in the range 200 to 299.
\<close>

record http_response =
  r_status :: nat
  r_statusText :: jsstring
  r_json :: "js_error + jsval"

datatype fetch_result = FetchRejected js_error | FetchResolved http_response

definition ok :: "http_response \<Rightarrow> bool" where
  "ok r \<longleftrightarrow> 200 \<le> r_status r \<and> r_status r \<le> 299"

text \<open>
  The places of \<open>generateCode\<close> where the engine itself throws a TypeError, and the
  runtime of a request: the upstream's answer to the prompt sent, the message the engine
  gives each of its TypeErrors, and the engine's text of a number.
\<close>

datatype throw_site = ErrorOfNull | MessageToString | CandidatesOfNull | TrimNotAFunction

record runtime =
  fetch :: "jsstring \<Rightarrow> fetch_result"
  typeErrorMessage :: "throw_site \<Rightarrow> jsstring"
  numberText :: "rat \<Rightarrow> jsstring"

definition typeError :: "runtime \<Rightarrow> throw_site \<Rightarrow> js_error" where
  "typeError rt site = \<lparr>e_message = Some (typeErrorMessage rt site), e_status = None\<rparr>"

text \<open>\<open>new Error(message)\<close>: an error with that message and no \<open>status\<close> property.\<close>

definition newError :: "jsstring \<Rightarrow> js_error" where
  "newError m = \<lparr>e_message = Some m, e_status = None\<rparr>"

section \<open>The generation endpoint\<close>

text \<open>
  The three fields \<open>generateCode\<close> reads of the parsed JSON body; a field that is absent
  is \<open>undefined\<close>.
\<close>

record generate_body =
  b_prompt :: jsval
  b_language :: jsval
  b_userId :: jsval

definition validLanguages :: "jsstring list" where
  "validLanguages = [ustr ''Python'', ustr ''JavaScript'', ustr ''C++'', ustr ''TypeScript'']"

text \<open>The validation of the request body: the response of the first check that fails.\<close>

definition validate :: "generate_body \<Rightarrow> response option" where
  "validate b =
     (let prompt = b_prompt b; language = b_language b; userId = b_userId b
      in if \<not> truthy prompt \<or> typeof prompt \<noteq> ustr ''string'' \<or> length (trim (stringOf prompt)) = 0 then
           Some (Response 400 (ErrorJson (ustr ''Prompt is required and must be a non-empty string'')))
         else if \<not> truthy language \<or> typeof language \<noteq> ustr ''string'' then
           Some (Response 400 (ErrorJson (ustr ''Language is required and must be a string'')))
         else if stringOf language \<notin> set validLanguages then
           Some (Response 400
             (ErrorJson (ustr ''Language must be one of: '' @ join (ustr '', '') validLanguages)))
         else if truthy userId \<and> typeof userId \<noteq> ustr ''string'' then
           Some (Response 400 (ErrorJson (ustr ''userId must be a string if provided'')))
         else None)"

text \<open>The lookup of the user, made only for a truthy \<open>userId\<close>: it may throw, or end the request with 404.\<close>

definition checkUser :: "gateway \<Rightarrow> store \<Rightarrow> jsval \<Rightarrow> js_error + response option" where
  "checkUser gw s userId =
     (if truthy userId then
        (case user_findUnique gw s (stringOf userId) of
           Inl e \<Rightarrow> Inl e
         | Inr None \<Rightarrow> Inr (Some (Response 404 (ErrorJson (ustr ''User not found''))))
         | Inr (Some u) \<Rightarrow> Inr None)
      else Inr None)"

definition fullPrompt :: "jsstring \<Rightarrow> jsstring \<Rightarrow> jsstring" where
  "fullPrompt language prompt =
     ustr ''You are a code generation assistant. Generate clean, well-commented code in '' @
     language @
     ustr ''. Return ONLY the code without any markdown formatting, explanations, or additional text. Just the raw code.'' @
     [0x0A, 0x0A] @ ustr ''User request: '' @ prompt"

text \<open>
  The error thrown for a response that is not \<open>ok\<close>. The body is read as JSON, a body
  that does not parse being replaced by \<open>{error: {message: statusText}}\<close>; the message is
  \<open>errorData.error?.message\<close>, or the text with the status when that is falsy.
\<close>

definition errorData :: "http_response \<Rightarrow> jsval" where
  "errorData r =
     (case r_json r of
        Inl e \<Rightarrow> JObj [(ustr ''error'', JObj [(ustr ''message'', JStr (r_statusText r))])]
      | Inr v \<Rightarrow> v)"

definition upstreamError :: "runtime \<Rightarrow> http_response \<Rightarrow> js_error" where
  "upstreamError rt r =
     (if nullish (errorData r) then typeError rt ErrorOfNull
      else
        let m = optNamed (getNamed (errorData r) (ustr ''error'')) (ustr ''message'');
            m = (if truthy m then m
                 else JStr (ustr ''API request failed with status '' @ showNat (r_status r)))
        in case toStringVal (numberText rt) m of
             None \<Rightarrow> typeError rt MessageToString
           | Some msg \<Rightarrow> newError msg)"

text \<open>
  \<open>data.candidates?.[0]?.content?.parts?.[0]?.text\<close> for a \<open>data\<close> that is not
  \<open>null\<close>, and then \<open>?.trim() || ''\<close>: reading \<open>candidates\<close> of \<open>null\<close> throws, and
  so does calling \<open>trim\<close> on a text that is not a string.
\<close>

definition candidateText :: "jsval \<Rightarrow> jsval" where
  "candidateText data =
     optNamed (optIndex0 (optNamed (optNamed (optIndex0
       (getNamed data (ustr ''candidates''))) (ustr ''content'')) (ustr ''parts'')))
       (ustr ''text'')"

definition generatedCode :: "runtime \<Rightarrow> jsval \<Rightarrow> js_error + jsstring" where
  "generatedCode rt data =
     (if nullish data then Inl (typeError rt CandidatesOfNull)
      else
        let text = candidateText data
        in if nullish text then Inr []
           else if typeof text = ustr ''string'' then Inr (trim (stringOf text))
           else Inl (typeError rt TrimNotAFunction))"

text \<open>The call of the upstream API, up to the parsed body of an \<open>ok\<close> response.\<close>

definition callUpstream :: "runtime \<Rightarrow> jsstring \<Rightarrow> js_error + jsval" where
  "callUpstream rt request =
     (case fetch rt request of
        FetchRejected e \<Rightarrow> Inl e
      | FetchResolved r \<Rightarrow>
          if \<not> ok r then Inl (upstreamError rt r)
          else r_json r)"

record generation_data =
  d_prompt :: jsstring
  d_language :: jsstring
  d_code :: jsstring
  d_userId :: "jsstring option"

definition generation_create ::
  "gateway \<Rightarrow> store \<Rightarrow> generation_data \<Rightarrow> js_error + generation \<times> store" where
  "generation_create gw s d =
     (case db_error gw GenerationCreate of
        Some e \<Rightarrow> Inl e
      | None \<Rightarrow>
          let g = \<lparr>g_id = new_id gw, g_prompt = d_prompt d, g_language = d_language d,
                   g_code = d_code d, g_userId = d_userId d, g_createdAt = now gw\<rparr>
          in Inr (g, s\<lparr>generations := generations s @ [g]\<rparr>))"

text \<open>\<open>error.message?.includes(t)\<close>, which is falsy for an error without a message.\<close>

definition messageIncludes :: "js_error \<Rightarrow> jsstring \<Rightarrow> bool" where
  "messageIncludes e t = (case e_message e of None \<Rightarrow> False | Some m \<Rightarrow> includesStr m t)"

text \<open>\<open>error.message || d\<close>.\<close>

definition messageOr :: "js_error \<Rightarrow> jsstring \<Rightarrow> jsstring" where
  "messageOr e d = (case e_message e of None \<Rightarrow> d | Some m \<Rightarrow> if m = [] then d else m)"

text \<open>The \<open>catch\<close> clause of \<open>generateCode\<close>.\<close>

definition handleError :: "js_error \<Rightarrow> response" where
  "handleError e =
     (if messageIncludes e (ustr ''API_KEY_INVALID'') \<or> messageIncludes e (ustr ''API key'') then
        Response 401
          (ErrorMessageJson (ustr ''Invalid Gemini API key'')
             (ustr ''Please check your GEMINI_API_KEY in the .env file. Get your API key at https://makersuite.google.com/app/apikey''))
      else if messageIncludes e (ustr ''quota'') \<or> messageIncludes e (ustr ''429'') then
        Response 429
          (ErrorMessageJson (ustr ''Gemini API quota exceeded'')
             (ustr ''You have exceeded your Gemini API quota. Please check your usage at https://makersuite.google.com/app/apikey''))
      else
        case e_status e of
          Some st \<Rightarrow>
            if st \<noteq> 0 then
              Response st
                (ErrorMessageJson (ustr ''Gemini API error'') (messageOr e (ustr ''Failed to generate code'')))
            else
              Response 500
                (ErrorMessageJson (ustr ''Failed to generate code'')
                   (messageOr e (ustr ''An unexpected error occurred'')))
        | None \<Rightarrow>
            Response 500
              (ErrorMessageJson (ustr ''Failed to generate code'')
                 (messageOr e (ustr ''An unexpected error occurred''))))"

text \<open>
  The handler returns its response, the store it leaves and the calls it made to its
  collaborators, in order.
\<close>

datatype effect = UserLookup jsstring | UpstreamCall jsstring | GenerationCreateCall generation_data

definition generateCode ::
  "gateway \<Rightarrow> runtime \<Rightarrow> generate_body \<Rightarrow> store \<Rightarrow> response \<times> store \<times> effect list" where
  "generateCode gw rt b s =
     (case validate b of
        Some r \<Rightarrow> (r, s, [])
      | None \<Rightarrow>
          let prompt = stringOf (b_prompt b); language = stringOf (b_language b);
              userId = b_userId b;
              lookup = (if truthy userId then [UserLookup (stringOf userId)] else [])
          in case checkUser gw s userId of
               Inl e \<Rightarrow> (handleError e, s, lookup)
             | Inr (Some r) \<Rightarrow> (r, s, lookup)
             | Inr None \<Rightarrow>
                 let request = fullPrompt language prompt;
                     called = lookup @ [UpstreamCall request]
                 in case callUpstream rt request of
                      Inl e \<Rightarrow> (handleError e, s, called)
                    | Inr data \<Rightarrow>
                        (case generatedCode rt data of
                           Inl e \<Rightarrow> (handleError e, s, called)
                         | Inr code \<Rightarrow>
                             if code = [] then
                               (Response 500 (ErrorJson (ustr ''Failed to generate code'')), s, called)
                             else
                               let d = \<lparr>d_prompt = trim prompt, d_language = language, d_code = code,
                                        d_userId = (if truthy userId then Some (stringOf userId) else None)\<rparr>
                               in case generation_create gw s d of
                                    Inl e \<Rightarrow> (handleError e, s, called @ [GenerationCreateCall d])
                                  | Inr (g, s') \<Rightarrow>
                                      (Response 200 (GenerationJson g), s',
                                       called @ [GenerationCreateCall d])))"

section \<open>Example collaborators, stores and requests\<close>

text \<open>
  A gateway whose operations all succeed, and for which an oversized \<open>skip\<close> skips every
  row; and a store with no records.
\<close>

definition gw_up :: gateway where
  "gw_up =
     \<lparr>db_error = (\<lambda>op. None), new_id = ustr ''gen-1'', now = 1700000000000,
      tie_rank = (\<lambda>g. 0), oversized_skip = (\<lambda>rows. Inr [])\<rparr>"

definition store_empty :: store where
  "store_empty = \<lparr>users = [], generations = []\<rparr>"

text \<open>A store with 25 generations, created at the times 1 to 25.\<close>

definition generation_at :: "nat \<Rightarrow> generation" where
  "generation_at i =
     \<lparr>g_id = ustr ''g'' @ showNat i, g_prompt = ustr ''reverse a string'', g_language = ustr ''Python'',
      g_code = ustr ''print(1)'', g_userId = None, g_createdAt = int i\<rparr>"

definition store25 :: store where
  "store25 = \<lparr>users = [], generations = map generation_at [1..<26]\<rparr>"

text \<open>A store with one user, and request bodies for Python code with a given \<open>userId\<close>.\<close>

definition store_one_user :: store where
  "store_one_user =
     \<lparr>users = [\<lparr>u_id = ustr ''u1'', u_email = None, u_name = Some (ustr ''Ada''),
                u_createdAt = 1, u_updatedAt = 1\<rparr>],
      generations = []\<rparr>"

definition body_for :: "jsval \<Rightarrow> generate_body" where
  "body_for userId =
     \<lparr>b_prompt = JStr (ustr '' say hi ''), b_language = JStr (ustr ''Python''), b_userId = userId\<rparr>"

text \<open>
  A runtime whose upstream always gives the same answer; an \<open>ok\<close> response whose first
  candidate carries a text; a failed response whose body is \<open>{"error": {"message": m}}\<close>;
  and a failed response whose body is \<open>{}\<close>.
\<close>

fun engineMessage :: "throw_site \<Rightarrow> jsstring" where
  "engineMessage ErrorOfNull = ustr ''Cannot read properties of null (reading 'error')''"
| "engineMessage MessageToString = ustr ''Cannot convert object to primitive value''"
| "engineMessage CandidatesOfNull = ustr ''Cannot read properties of null (reading 'candidates')''"
| "engineMessage TrimNotAFunction = ustr ''text.trim is not a function''"

definition rt_reply :: "fetch_result \<Rightarrow> runtime" where
  "rt_reply x =
     \<lparr>fetch = (\<lambda>request. x), typeErrorMessage = engineMessage,
      numberText = (\<lambda>q. ustr ''1e+21'')\<rparr>"

definition candidates_with :: "jsstring \<Rightarrow> jsval" where
  "candidates_with t =
     JObj [(ustr ''candidates'',
            JArr [JObj [(ustr ''content'',
                         JObj [(ustr ''parts'', JArr [JObj [(ustr ''text'', JStr t)]])])]])]"

definition reply_text :: "jsstring \<Rightarrow> fetch_result" where
  "reply_text t =
     FetchResolved \<lparr>r_status = 200, r_statusText = ustr ''OK'', r_json = Inr (candidates_with t)\<rparr>"

definition reply_error :: "nat \<Rightarrow> jsstring \<Rightarrow> fetch_result" where
  "reply_error st m =
     FetchResolved
       \<lparr>r_status = st, r_statusText = [],
        r_json = Inr (JObj [(ustr ''error'', JObj [(ustr ''message'', JStr m)])])\<rparr>"

definition reply_bare :: "nat \<Rightarrow> fetch_result" where
  "reply_bare st = FetchResolved \<lparr>r_status = st, r_statusText = [], r_json = Inr (JObj [])\<rparr>"


text \<open>
  A store with two generations created at the same time, and a rank that puts the
  generation with the longer identifier first.
\<close>

definition store_tied :: store where
  "store_tied =
     \<lparr>users = [],
      generations =
        [\<lparr>g_id = ustr ''a'', g_prompt = ustr ''first'', g_language = ustr ''Python'',
          g_code = ustr ''print(1)'', g_userId = None, g_createdAt = 7\<rparr>,
         \<lparr>g_id = ustr ''bb'', g_prompt = ustr ''second'', g_language = ustr ''Python'',
          g_code = ustr ''print(2)'', g_userId = None, g_createdAt = 7\<rparr>]\<rparr>"

definition longer_id_first :: "generation \<Rightarrow> int" where
  "longer_id_first g = - int (length (g_id g))"

text \<open>A response with a given status, status text and body.\<close>

definition reply_raw :: "nat \<Rightarrow> jsstring \<Rightarrow> js_error + jsval \<Rightarrow> fetch_result" where
  "reply_raw st text b = FetchResolved \<lparr>r_status = st, r_statusText = text, r_json = b\<rparr>"

definition syntaxError :: js_error where
  "syntaxError = \<lparr>e_message = Some (ustr ''Unexpected token < in JSON at position 0''), e_status = None\<rparr>"

section \<open>Facts about numbers\<close>

lemma bits_bounds: "2 ^ k \<le> n \<Longrightarrow> n < 2 ^ Suc k \<Longrightarrow> bits n = Suc k"
proof (induction k arbitrary: n)
  case 0
  then have "n = 1" by simp
  then show ?case by (simp add: bits.simps)
next
  case (Suc k)
  then have "2 ^ k \<le> n div 2" "n div 2 < 2 ^ Suc k" by auto
  from Suc.IH [OF this] Suc.prems show ?case
    by (subst bits.simps) auto
qed

lemma bits_upper: "n < 2 ^ bits n"
proof (induction n rule: bits.induct)
  case (1 n)
  show ?case
  proof (cases "n = 0")
    case True
    then show ?thesis by (simp add: bits.simps)
  next
    case False
    with 1 have "n div 2 < 2 ^ bits (n div 2)" by simp
    then have "n < 2 * 2 ^ bits (n div 2)" by linarith
    with False show ?thesis by (subst bits.simps) simp
  qed
qed

lemma bits_lower: "0 < n \<Longrightarrow> 2 ^ bits n \<le> 2 * n"
proof (induction n rule: bits.induct)
  case (1 n)
  show ?case
  proof (cases "n div 2 = 0")
    case True
    with 1(2) have "n = 1" by (auto simp: div_eq_0_iff)
    then show ?thesis by (simp add: bits.simps)
  next
    case False
    with 1 have "2 ^ bits (n div 2) \<le> 2 * (n div 2)" by simp
    then have "2 * 2 ^ bits (n div 2) \<le> 2 * n" by linarith
    with 1(2) show ?thesis by (subst bits.simps) simp
  qed
qed

lemma roundHalfEven_le:
  assumes "0 < b" and "a \<le> N * b"
  shows "roundHalfEven a b \<le> N"
proof -
  define q where "q = a div b"
  define r where "r = a mod b"
  have a: "a = q * b + r" by (simp add: q_def r_def)
  have "a div b \<le> (N * b) div b" by (rule div_le_mono [OF assms(2)])
  then have q: "q \<le> N" using assms(1) by (simp add: q_def)
  show ?thesis
  proof (cases "r = 0")
    case True
    with assms(1) q show ?thesis by (simp add: roundHalfEven_def Let_def q_def r_def)
  next
    case False
    have "q \<noteq> N"
    proof
      assume "q = N"
      with a assms(2) False show False by simp
    qed
    with q have "q + 1 \<le> N" by simp
    then show ?thesis by (simp add: roundHalfEven_def Let_def q_def)
  qed
qed

lemma roundHalfEven_ge:
  assumes "0 < b"
  shows "2 * a \<le> 2 * (b * roundHalfEven a b) + b"
proof -
  define q where "q = a div b"
  define r where "r = a mod b"
  define p where "p = b * q"
  have a: "a = p + r" by (simp add: p_def q_def r_def)
  have r: "r < b" using assms by (simp add: r_def)
  show ?thesis
  proof (cases "b < 2 * r \<or> (2 * r = b \<and> odd q)")
    case True
    then have "roundHalfEven a b = q + 1"
      by (simp add: roundHalfEven_def Let_def q_def r_def)
    then have "b * roundHalfEven a b = p + b" by (simp add: p_def)
    with a r show ?thesis by simp
  next
    case False
    then have "roundHalfEven a b = q"
      by (auto simp: roundHalfEven_def Let_def q_def r_def)
    then have k: "b * roundHalfEven a b = p" by (simp add: p_def)
    from False have "2 * r \<le> b" by auto
    with a k show ?thesis by simp
  qed
qed


lemma exponent_lower:
  assumes "0 < n" and "0 < l"
  defines "d \<equiv> int (bits n) - int (bits l)"
  defines "e \<equiv> (if (if 0 \<le> d then l * 2 ^ nat d \<le> n else l \<le> n * 2 ^ nat (- d)) then d else d - 1)"
  shows "l * 2 ^ nat e \<le> n * 2 ^ nat (- e)"
proof (cases "if 0 \<le> d then l * 2 ^ nat d \<le> n else l \<le> n * 2 ^ nat (- d)")
  case True
  then have "e = d" by (simp add: e_def)
  with True show ?thesis by (cases "0 \<le> d") simp_all
next
  case False
  then have e: "e = d - 1" by (simp add: e_def)
  have l: "l < 2 ^ bits l" by (rule bits_upper)
  have n: "2 ^ bits n \<le> 2 * n" by (rule bits_lower [OF assms(1)])
  show ?thesis
  proof (cases "1 \<le> d")
    case True
    then have bn: "bits n = bits l + nat (d - 1) + 1" by (simp add: d_def)
    have "l * 2 ^ nat (d - 1) \<le> 2 ^ bits l * 2 ^ nat (d - 1)"
      using l by simp
    also have "2 * \<dots> = 2 ^ bits n" by (simp add: bn power_add)
    finally have "2 * (l * 2 ^ nat (d - 1)) \<le> 2 * n" using n by simp
    with True show ?thesis by (simp add: e)
  next
    case False
    then have bl: "bits l = bits n + nat (- d)" by (simp add: d_def)
    have "l \<le> 2 ^ bits n * 2 ^ nat (- d)" using l by (simp add: bl power_add)
    also have "\<dots> \<le> (2 * n) * 2 ^ nat (- d)" using n by simp
    also have "\<dots> = n * 2 ^ nat (1 - d)"
    proof -
      from False have "nat (1 - d) = Suc (nat (- d))" by simp
      then show ?thesis by simp
    qed
    finally show ?thesis using False by (simp add: e)
  qed
qed


lemma int_times_pos_bounds:
  fixes c l :: int
  assumes "0 < l" and "0 \<le> c * l"
  shows "0 \<le> c"
proof (rule ccontr)
  assume "\<not> 0 \<le> c"
  then have "c \<le> - 1" by simp
  then have "c * l \<le> (- 1) * l" using assms(1) by (intro mult_right_mono) simp_all
  with assms show False by simp
qed

lemma quotientDouble_ceiling:
  fixes n l :: nat and c :: int
  assumes n: "n < 2 ^ 53" and l: "0 < l"
    and cover: "int n \<le> c * int l" and tight: "c * int l < int n + int l"
  shows "\<lceil>quotientDouble n l\<rceil> = c"
proof -
  have lpos: "0 < int l" using l by simp
  have c0: "0 \<le> c"
  proof (rule int_times_pos_bounds [OF lpos])
    have "0 \<le> int n" by simp
    with cover show "0 \<le> c * int l" by linarith
  qed
  show ?thesis
  proof (cases "n = 0")
    case True
    have "c < 1"
    proof (rule ccontr)
      assume "\<not> c < 1"
      then have "1 \<le> c" by simp
      then have "1 * int l \<le> c * int l" using lpos by (intro mult_right_mono) simp_all
      with tight True show False by simp
    qed
    with c0 have "c = 0" by simp
    with True show ?thesis by (simp add: quotientDouble_def)
  next
    case False
    then have pos: "0 < n" by simp
    define d where "d = int (bits n) - int (bits l)"
    define e where "e = (if (if 0 \<le> d then l * 2 ^ nat d \<le> n else l \<le> n * 2 ^ nat (- d)) then d else d - 1)"
    have E: "l * 2 ^ nat e \<le> n * 2 ^ nat (- e)"
      unfolding e_def d_def by (rule exponent_lower [OF pos l])
    have e52: "e \<le> 52"
    proof (rule ccontr)
      assume "\<not> e \<le> 52"
      then have big: "53 \<le> nat e" and zero: "nat (- e) = 0" by simp_all
      have "(2::nat) ^ 53 \<le> 2 ^ nat e" using big by (intro power_increasing) simp_all
      then have "l * 2 ^ 53 \<le> l * 2 ^ nat e" by (rule mult_le_mono2)
      also have "\<dots> \<le> n" using E zero by simp
      also have "n < 2 ^ 53" by (rule n)
      finally have "l * 2 ^ 53 < 1 * 2 ^ 53" by simp
      then have "l < 1" by (simp only: mult_less_cancel2)
      with l show False by simp
    qed
    define S where "S = nat (52 - e)"
    define k where "k = roundHalfEven (n * 2 ^ S) l"
    have val: "quotientDouble n l = of_nat k / 2 ^ S"
      using False e52
      by (simp add: quotientDouble_def Let_def d_def [symmetric] e_def [symmetric] S_def k_def)
    have small: "l < 2 * 2 ^ S"
    proof (cases "0 \<le> e")
      case True
      with e52 have split: "nat e + Suc S = 53" by (simp add: S_def)
      from True E have "l * 2 ^ nat e \<le> n" by simp
      also from n have "n < 2 ^ (nat e + Suc S)" by (simp only: split)
      finally have "l * 2 ^ nat e < (2 * 2 ^ S) * 2 ^ nat e"
        by (simp only: power_add power_Suc mult.commute)
      then show ?thesis by (simp only: mult_less_cancel2)
    next
      case False
      then have split: "53 + nat (- e) = Suc S" by (simp add: S_def)
      from False E have "l \<le> n * 2 ^ nat (- e)" by simp
      also have "\<dots> < 2 ^ 53 * 2 ^ nat (- e)" using n by simp
      also have "\<dots> = 2 ^ Suc S" by (simp only: power_add [symmetric] split)
      finally show ?thesis by (simp only: power_Suc)
    qed
    define C where "C = nat c"
    have cC: "c = int C" using c0 by (simp add: C_def)
    have upper: "k \<le> C * 2 ^ S"
    proof -
      from cover have "int n \<le> int (C * l)" by (simp add: cC)
      then have "n \<le> C * l" by (simp only: of_nat_le_iff)
      then have "n * 2 ^ S \<le> (C * l) * 2 ^ S" by (rule mult_le_mono1)
      then have "n * 2 ^ S \<le> (C * 2 ^ S) * l" by (simp only: mult.assoc mult.commute mult.left_commute)
      from roundHalfEven_le [OF l this] show ?thesis by (simp add: k_def)
    qed
    have lower: "c * 2 ^ S < int k + 2 ^ S"
    proof -
      define P :: int where "P = 2 ^ S"
      define X where "X = (c - 1) * P - int k"
      have Ppos: "0 < P" by (simp add: P_def)
      from roundHalfEven_ge [OF l, of "n * 2 ^ S"]
      have "2 * (n * 2 ^ S) \<le> 2 * (l * k) + l" by (simp add: k_def)
      then have "int (2 * (n * 2 ^ S)) \<le> int (2 * (l * k) + l)" by (simp only: of_nat_le_iff)
      then have ge: "2 * (int n * P) \<le> 2 * (int l * int k) + int l"
        by (simp only: of_nat_mult of_nat_add of_nat_power of_nat_numeral P_def)
      from tight have "(c - 1) * int l + 1 \<le> int n" by (simp add: algebra_simps)
      then have "((c - 1) * int l + 1) * P \<le> int n * P"
        using Ppos by (intro mult_right_mono) simp_all
      with ge have "2 * (((c - 1) * int l + 1) * P) \<le> 2 * (int l * int k) + int l"
        by linarith
      then have a: "2 * (int l * X) \<le> int l - 2 * P"
        by (simp add: X_def algebra_simps)
      have "int l < int (2 * 2 ^ S)" using small by (simp only: of_nat_less_iff)
      then have "int l < 2 * P"
        by (simp only: of_nat_mult of_nat_power of_nat_numeral P_def)
      with a have neg: "int l * X < 0" by linarith
      have "X < 0"
      proof (rule ccontr)
        assume "\<not> X < 0"
        then have "0 \<le> int l * X" by simp
        with neg show False by simp
      qed
      then show ?thesis by (simp add: X_def P_def algebra_simps)
    qed
    have two: "(0::rat) < 2 ^ S" by simp
    have "of_int c - 1 < (of_nat k / 2 ^ S :: rat)"
    proof -
      from lower have "(of_int (c * 2 ^ S) :: rat) < of_int (int k + 2 ^ S)"
        by (simp only: of_int_less_iff)
      then have "(of_int c - 1) * 2 ^ S < (of_nat k :: rat)" by (simp add: algebra_simps)
      with two show ?thesis by (simp only: pos_less_divide_eq)
    qed
    moreover have "(of_nat k / 2 ^ S :: rat) \<le> of_int c"
    proof -
      from upper have "(of_nat k :: rat) \<le> of_nat (C * 2 ^ S)" by (simp only: of_nat_le_iff)
      then have "(of_nat k :: rat) \<le> of_int c * 2 ^ S" by (simp add: cC)
      with two show ?thesis by (simp only: pos_divide_le_eq)
    qed
    ultimately show ?thesis unfolding val by (rule ceiling_unique)
  qed
qed

lemma roundToDouble_exact: "\<bar>n\<bar> \<le> 2 ^ 53 \<Longrightarrow> roundToDouble n = Num n"
  by (simp add: roundToDouble_def)

lemma roundToDouble_small [simp]:
  "roundToDouble 0 = Num 0" "roundToDouble 1 = Num 1"
  by (simp_all add: roundToDouble_def)

lemma ceiling_pages_cover:
  fixes n :: nat and limit :: int
  assumes "1 \<le> limit"
  shows "int n \<le> \<lceil>real n / real_of_int limit\<rceil> * limit"
proof -
  define c where "c = \<lceil>real n / real_of_int limit\<rceil>"
  have pos: "0 < real_of_int limit" using assms by simp
  have "real n / real_of_int limit \<le> real_of_int c"
    unfolding c_def by (rule le_of_int_ceiling)
  then have "real n \<le> real_of_int c * real_of_int limit"
    using pos by (simp only: pos_divide_le_eq)
  then have "real_of_int (int n) \<le> real_of_int (c * limit)"
    by simp
  then have "int n \<le> c * limit" by (simp only: of_int_le_iff)
  then show ?thesis by (simp only: c_def)
qed

lemma ceiling_pages_tight:
  fixes n :: nat and limit :: int
  assumes "1 \<le> limit"
  shows "\<lceil>real n / real_of_int limit\<rceil> * limit < int n + limit"
proof -
  define c where "c = \<lceil>real n / real_of_int limit\<rceil>"
  have pos: "0 < real_of_int limit" using assms by simp
  have "real_of_int c - 1 < real n / real_of_int limit"
    unfolding c_def by linarith
  then have "(real_of_int c - 1) * real_of_int limit < real n"
    using pos by (simp only: pos_less_divide_eq)
  then have "real_of_int (c * limit) < real_of_int (int n + limit)"
    by (simp add: algebra_simps)
  then have "c * limit < int n + limit" by (simp only: of_int_less_iff)
  then show ?thesis by (simp only: c_def)
qed

text \<open>
  Below \<open>2 ^ 53\<close> rows, the ceiling of the quotient computed in doubles is the ceiling
  of the exact quotient.
\<close>

lemma ceilOfQuotient_exact:
  fixes n :: nat and limit :: int
  assumes "n < 2 ^ 53" and "1 \<le> limit"
  shows "ceilOfQuotient n (Num limit) = Num \<lceil>real n / real_of_int limit\<rceil>"
proof -
  have l: "0 < nat limit" and cast: "int (nat limit) = limit" using assms(2) by simp_all
  have "\<lceil>quotientDouble n (nat limit)\<rceil> = \<lceil>real n / real_of_int limit\<rceil>"
    using ceiling_pages_cover [OF assms(2), of n] ceiling_pages_tight [OF assms(2), of n]
    by (intro quotientDouble_ceiling [OF assms(1) l]) (simp_all only: cast)
  with assms(2) show ?thesis by simp
qed

lemma historySkip_exact:
  fixes page limit :: int
  assumes "1 \<le> page" and "1 \<le> limit" and "page * limit \<le> 2 ^ 53"
  shows "historySkip (Num page) (Num limit) = Num ((page - 1) * limit)"
proof -
  have "page * 1 \<le> page * limit" using assms(1,2) by (intro mult_left_mono) simp_all
  with assms(3) have page: "page \<le> 2 ^ 53" by simp
  have "(page - 1) * limit \<le> page * limit" using assms(2) by (intro mult_right_mono) simp_all
  with assms(3) have "(page - 1) * limit \<le> 2 ^ 53" by simp
  moreover have "0 \<le> (page - 1) * limit" using assms(1,2) by simp
  ultimately have "\<bar>(page - 1) * limit\<bar> \<le> 2 ^ 53" by simp
  moreover have "\<bar>page - 1\<bar> \<le> 2 ^ 53" using page assms(1) by simp
  ultimately show ?thesis
    by (simp add: historySkip_def roundToDouble_exact)
qed

section \<open>Facts about parseInt\<close>

lemma parseInt_zero: "parseInt (ustr ''0'') = Num 0"
  by code_simp

lemma parseInt_undefined: "parseInt (ustr ''undefined'') = NaN"
  by code_simp

lemma orDefault_zero:
  "orDefault (parseInt (toString (Some (ustr ''0'')))) d = orDefault (parseInt (toString None)) d"
  by (simp add: toString_def parseInt_zero parseInt_undefined orDefault_def)

lemma isRadixDigit_10: "isRadixDigit 10 c \<longleftrightarrow> 0x30 \<le> c \<and> c \<le> 0x39"
  by (auto simp: isRadixDigit_def digitValue_def word_le_nat_alt split: if_splits)

lemma digit_not_space: "isRadixDigit 10 c \<Longrightarrow> \<not> isWhiteSpace c"
  by (auto simp: isRadixDigit_10 isWhiteSpace_def word_le_nat_alt)

lemma digit_not_sign: "isRadixDigit 10 c \<Longrightarrow> c \<noteq> 0x2D \<and> c \<noteq> 0x2B \<and> c \<noteq> 0x78 \<and> c \<noteq> 0x58"
  by (auto simp: isRadixDigit_10 word_le_nat_alt)

lemma mathInt_single_zero: "mathInt 10 [0x30] = 0"
  by (simp add: mathInt_def digitValue_def)

lemma takeWhile_digits:
  assumes "\<forall>c\<in>set ds. isRadixDigit 10 c" and "rest = [] \<or> \<not> isRadixDigit 10 (hd rest)"
  shows "takeWhile (isRadixDigit 10) (ds @ rest) = ds"
proof -
  have "takeWhile (isRadixDigit 10) rest = []"
    using assms(2) by (cases rest) auto
  with assms(1) show ?thesis by (simp add: takeWhile_append2)
qed

lemma parseInt_digit_prefix:
  assumes ne: "ds \<noteq> []" and digits: "\<forall>c\<in>set ds. isRadixDigit 10 c"
    and rest: "rest = [] \<or> \<not> isRadixDigit 10 (hd rest)"
    and nz: "mathInt 10 ds \<noteq> 0"
  shows "parseInt (ds @ rest) = roundToDouble (int (mathInt 10 ds))"
proof -
  from ne obtain d ds' where ds: "ds = d # ds'" by (cases ds) auto
  with digits have d: "isRadixDigit 10 d" by simp
  have trimmed: "trimStart (ds @ rest) = ds @ rest"
    using digit_not_space [OF d] by (simp add: trimStart_def ds)
  have nosign: "hd (ds @ rest) \<noteq> 0x2D" "hd (ds @ rest) \<noteq> 0x2B"
    using digit_not_sign [OF d] by (simp_all add: ds)
  have nohex: "take 2 (ds @ rest) \<noteq> ustr ''0x''" "take 2 (ds @ rest) \<noteq> ustr ''0X''"
  proof -
    show "take 2 (ds @ rest) \<noteq> ustr ''0x''"
    proof (cases ds')
      case Nil
      with ds nz have "d \<noteq> 0x30" using mathInt_single_zero by auto
      then show ?thesis by (auto simp: ds ustr_def)
    next
      case (Cons e es)
      with ds digits have "isRadixDigit 10 e" by simp
      from digit_not_sign [OF this] show ?thesis by (auto simp: ds Cons ustr_def)
    qed
    show "take 2 (ds @ rest) \<noteq> ustr ''0X''"
    proof (cases ds')
      case Nil
      with ds nz have "d \<noteq> 0x30" using mathInt_single_zero by auto
      then show ?thesis by (auto simp: ds ustr_def)
    next
      case (Cons e es)
      with ds digits have "isRadixDigit 10 e" by simp
      from digit_not_sign [OF this] show ?thesis by (auto simp: ds Cons ustr_def)
    qed
  qed
  have run: "takeWhile (isRadixDigit 10) (ds @ rest) = ds"
    by (rule takeWhile_digits [OF digits rest])
  show ?thesis
    unfolding parseInt_def Let_def trimmed
    using nosign nohex run ne by simp
qed

lemma parseInt_digits_only:
  assumes "ds \<noteq> []" and "\<forall>c\<in>set ds. isRadixDigit 10 c" and "mathInt 10 ds \<noteq> 0"
  shows "parseInt ds = roundToDouble (int (mathInt 10 ds))"
  using parseInt_digit_prefix [OF assms(1,2) _ assms(3), of "[]"] by simp

lemma parseInt_three: "parseInt (ustr ''3'') = Num 3"
  by code_simp

text \<open>Beyond \<open>2 ^ 53\<close> the value of the digits is rounded.\<close>

lemma roundToDouble_odd: "roundToDouble 9007199254740993 = Num 9007199254740992"
proof -
  have "bits 9007199254740993 = Suc 53" by (rule bits_bounds) simp_all
  then show ?thesis by (simp add: roundToDouble_def roundHalfEven_def Let_def)
qed

lemma roundToDouble_skip: "roundToDouble 27021597764222973 = Num 27021597764222972"
proof -
  have "bits 27021597764222973 = Suc 54" by (rule bits_bounds) simp_all
  then show ?thesis by (simp add: roundToDouble_def roundHalfEven_def Let_def)
qed

lemma mathInt_large: "mathInt 10 (ustr ''9007199254740993'') = 9007199254740993"
  by (simp add: mathInt_def digitValue_def ustr_def)

lemma large_digits:
  "ustr ''9007199254740993'' \<noteq> []"
  "\<forall>c\<in>set (ustr ''9007199254740993''). isRadixDigit 10 c"
  by (simp_all add: ustr_def isRadixDigit_def digitValue_def)

lemma parseInt_large: "parseInt (ustr ''9007199254740993'') = Num 9007199254740992"
  using parseInt_digits_only [OF large_digits] by (simp add: mathInt_large roundToDouble_odd)

section \<open>The history endpoint: validation\<close>

text \<open>The two range checks, on the values left after the defaults were substituted.\<close>

lemma history_rejects_out_of_range:
  "numLess (orDefault (parseInt (toString (q_page q))) (Num 1)) (Num 1) \<Longrightarrow>
     getHistory gw q s = (Response 400 (ErrorJson (ustr ''Page must be greater than 0'')), s)"
  "\<not> numLess (orDefault (parseInt (toString (q_page q))) (Num 1)) (Num 1) \<Longrightarrow>
   numLess (orDefault (parseInt (toString (q_limit q))) (Num 10)) (Num 1) \<or>
   numLess (Num 100) (orDefault (parseInt (toString (q_limit q))) (Num 10)) \<Longrightarrow>
     getHistory gw q s = (Response 400 (ErrorJson (ustr ''Limit must be between 1 and 100'')), s)"
  by (auto simp: getHistory_def Let_def)

lemma history_rejects_examples:
  "orDefault (parseInt (toString (Some (ustr ''-1'')))) (Num 1) = Num (- 1)"
  "orDefault (parseInt (toString (Some (ustr ''101'')))) (Num 10) = Num 101"
  by code_simp+

text \<open>
  C1. The claim is that \<open>page=0\<close> and \<open>limit=0\<close> are rejected with status 400. In the
  code \<open>parseInt("0") || 1\<close> is \<open>1\<close>, because zero is falsy: a zero is replaced by the
  default before the range check reads it. The request with \<open>page=0\<close> (or \<open>limit=0\<close>) is
  answered exactly as the request without that parameter, and with the other parameter
  absent the answer is never a 400.
\<close>

theorem history_zero_is_defaulted:
  "getHistory gw (q\<lparr>q_page := Some (ustr ''0'')\<rparr>) s = getHistory gw (q\<lparr>q_page := None\<rparr>) s \<and>
   getHistory gw (q\<lparr>q_limit := Some (ustr ''0'')\<rparr>) s = getHistory gw (q\<lparr>q_limit := None\<rparr>) s \<and>
   status (fst (getHistory gw \<lparr>q_page = Some (ustr ''0''), q_limit = None, q_language = l\<rparr> s)) \<noteq> 400 \<and>
   status (fst (getHistory gw \<lparr>q_page = None, q_limit = Some (ustr ''0''), q_language = l\<rparr> s)) \<noteq> 400"
proof -
  have "status (fst (getHistory gw \<lparr>q_page = None, q_limit = None, q_language = l\<rparr> s)) \<noteq> 400"
    by (simp add: getHistory_def toString_def parseInt_undefined orDefault_def Let_def
        split: sum.splits prod.splits)
  moreover have
    "getHistory gw \<lparr>q_page = Some (ustr ''0''), q_limit = None, q_language = l\<rparr> s =
     getHistory gw \<lparr>q_page = None, q_limit = None, q_language = l\<rparr> s"
    "getHistory gw \<lparr>q_page = None, q_limit = Some (ustr ''0''), q_language = l\<rparr> s =
     getHistory gw \<lparr>q_page = None, q_limit = None, q_language = l\<rparr> s"
    by (simp_all add: getHistory_def orDefault_zero)
  moreover have
    "getHistory gw (q\<lparr>q_page := Some (ustr ''0'')\<rparr>) s = getHistory gw (q\<lparr>q_page := None\<rparr>) s"
    "getHistory gw (q\<lparr>q_limit := Some (ustr ''0'')\<rparr>) s = getHistory gw (q\<lparr>q_limit := None\<rparr>) s"
    by (simp_all add: getHistory_def orDefault_zero)
  ultimately show ?thesis by simp
qed

lemma quotientDouble_zero: "quotientDouble 0 l = 0"
  by (simp add: quotientDouble_def)

lemma history_empty_store:
  assumes "orDefault (parseInt (toString (q_page q))) (Num 1) = Num page" and "1 \<le> page"
    and "orDefault (parseInt (toString (q_limit q))) (Num 10) = Num 10"
  shows "fst (getHistory gw_up q store_empty) =
     Response 200 (HistoryJson []
       \<lparr>p_page = Num page, p_limit = Num 10, p_total = 0, p_totalPages = Num 0,
        p_hasNext = False, p_hasPrev = (1 < page)\<rparr>)"
  using assms
  by (simp add: getHistory_def truthyString_def promiseAll_def generation_count_def
      generation_findMany_def gw_up_def store_empty_def orderByCreatedAtDesc_def matches_def
      skipRows_def takeRows_def quotientDouble_zero Let_def split: number.splits)

theorem history_zero_is_defaulted_witness:
  "fst (getHistory gw_up \<lparr>q_page = Some (ustr ''0''), q_limit = None, q_language = None\<rparr> store_empty) =
     Response 200 (HistoryJson []
       \<lparr>p_page = Num 1, p_limit = Num 10, p_total = 0, p_totalPages = Num 0,
        p_hasNext = False, p_hasPrev = False\<rparr>)"
proof -
  have "fst (getHistory gw_up \<lparr>q_page = None, q_limit = None, q_language = None\<rparr> store_empty) =
     Response 200 (HistoryJson []
       \<lparr>p_page = Num 1, p_limit = Num 10, p_total = 0, p_totalPages = Num 0,
        p_hasNext = False, p_hasPrev = False\<rparr>)"
    using history_empty_store [of "\<lparr>q_page = None, q_limit = None, q_language = None\<rparr>" 1]
    by (simp add: toString_def parseInt_undefined orDefault_def)
  with history_zero_is_defaulted
         [of gw_up "\<lparr>q_page = None, q_limit = None, q_language = None\<rparr>" store_empty None]
  show ?thesis by simp
qed

section \<open>The history endpoint: reads only\<close>

lemma sort_key_unique:
  assumes "mset xs = mset ys" and "distinct (map f xs)"
  shows "sort_key f xs = sort_key f ys"
proof -
  let ?a = "sort_key f xs" and ?b = "sort_key f ys"
  have perm: "mset ?a = mset ?b" using assms(1) by simp
  have "mset (map f ?a) = mset (map f xs)" by simp
  from mset_eq_imp_distinct_iff [OF this] assms(2) have da: "distinct (map f ?a)" by simp
  have keys: "mset (map f ?a) = mset (map f ?b)" using assms(1) by simp
  from mset_eq_imp_distinct_iff [OF this] da have db: "distinct (map f ?b)" by simp
  have "set (map f ?a) = set (map f ?b)" by (rule mset_eq_setD [OF keys])
  with da db have same: "map f ?a = map f ?b"
    by (intro sorted_distinct_set_unique) simp_all
  have "inj_on f (set ?a)" using da by (simp add: distinct_map)
  moreover have "set ?a = set ?b" by (rule mset_eq_setD [OF perm])
  ultimately have "inj_on f (set ?a \<union> set ?b)" by simp
  from inj_on_map_eq_map [OF this] same show ?thesis by simp
qed

lemma orderByCreatedAtDesc_tie_free:
  assumes "distinct (map g_createdAt gs)"
  shows "orderByCreatedAtDesc gw' gs = orderByCreatedAtDesc gw gs"
proof -
  have inj: "inj_on (\<lambda>g. - g_createdAt g) (set gs)"
    using assms by (auto simp: distinct_map inj_on_def)
  have "distinct gs" using assms by (simp add: distinct_map)
  with inj have "distinct (map (\<lambda>g. - g_createdAt g) gs)" by (simp add: distinct_map)
  moreover have "mset (map (\<lambda>g. - g_createdAt g) (sort_key (tie_rank gw') gs)) =
      mset (map (\<lambda>g. - g_createdAt g) gs)" by simp
  ultimately have keys: "distinct (map (\<lambda>g. - g_createdAt g) (sort_key (tie_rank gw') gs))"
    using mset_eq_imp_distinct_iff by blast
  have "mset (sort_key (tie_rank gw') gs) = mset (sort_key (tie_rank gw) gs)" by simp
  from sort_key_unique [OF this keys] show ?thesis by (simp add: orderByCreatedAtDesc_def)
qed

lemma getHistory_store: "snd (getHistory gw q s) = s"
  by (simp add: getHistory_def Let_def split: sum.splits prod.splits)

lemma skipRows_tie_free: "skipRows (gw\<lparr>tie_rank := r\<rparr>) skip rows = skipRows gw skip rows"
  by (cases skip) (simp_all add: skipRows_def)

lemma findMany_tie_free:
  assumes "distinct (map g_createdAt (filter (matches wh) (generations s)))"
  shows "generation_findMany (gw\<lparr>tie_rank := r\<rparr>) s wh skip tk = generation_findMany gw s wh skip tk"
  using orderByCreatedAtDesc_tie_free [OF assms, of "gw\<lparr>tie_rank := r\<rparr>" gw]
  by (cases "db_error gw GenerationFindMany")
     (simp_all add: generation_findMany_def skipRows_tie_free)

lemma count_tie_free:
  "generation_count (gw\<lparr>tie_rank := r\<rparr>) s wh = generation_count gw s wh"
  by (simp add: generation_count_def)

lemma getHistory_tie_free:
  assumes "distinct (map g_createdAt
             (filter (matches (if truthyString (q_language q) then q_language q else None))
                (generations s)))"
  shows "getHistory (gw\<lparr>tie_rank := r\<rparr>) q s = getHistory gw q s"
  unfolding getHistory_def Let_def count_tie_free findMany_tie_free [OF assms] by (rule refl)

text \<open>
  C8, as amended. The history endpoint leaves the store as it found it, whatever the query
  and whether or not the gateway fails. A second invocation with the same query, on the
  store the first one left, gives the same response when no two of the generations that
  match the filter were created at the same time, however the store orders generations
  of the same \<open>createdAt\<close> in either invocation.
\<close>

theorem history_read_only:
  "snd (getHistory gw q s) = s \<and>
   (distinct (map g_createdAt
      (filter (matches (if truthyString (q_language q) then q_language q else None))
         (generations s))) \<longrightarrow>
    getHistory (gw\<lparr>tie_rank := r\<rparr>) q (snd (getHistory gw q s)) = getHistory gw q s)"
  by (simp add: getHistory_store getHistory_tie_free)

lemma store25_distinct: "distinct (map g_createdAt (generations store25))"
  by (simp add: store25_def generation_at_def distinct_map inj_on_def comp_def)

theorem history_read_only_witness:
  "snd (getHistory gw_up \<lparr>q_page = Some (ustr ''2''), q_limit = None, q_language = None\<rparr> store25)
     = store25 \<and>
   getHistory (gw_up\<lparr>tie_rank := longer_id_first\<rparr>)
     \<lparr>q_page = Some (ustr ''2''), q_limit = None, q_language = None\<rparr> store25 =
   getHistory gw_up \<lparr>q_page = Some (ustr ''2''), q_limit = None, q_language = None\<rparr> store25"
  using history_read_only
          [of gw_up "\<lparr>q_page = Some (ustr ''2''), q_limit = None, q_language = None\<rparr>" store25
              longer_id_first]
    store25_distinct
  by (simp add: truthyString_def matches_def getHistory_store)

lemma orDefault_absent: "orDefault (parseInt (toString None)) d = d"
  by (simp add: toString_def parseInt_undefined orDefault_def)

lemma length_ustr: "length (ustr s) = length s"
  by (simp add: ustr_def)

text \<open>
  C8 as stated fails when two matching generations have the same \<open>createdAt\<close>: the read
  is ordered by \<open>createdAt\<close> alone, and a store that returns the two in one order for one
  invocation and in the other order for the next gives two different responses.
\<close>

theorem history_tied_order_counterexample:
  "fst (getHistory gw_up \<lparr>q_page = None, q_limit = None, q_language = None\<rparr> store_tied) =
     Response 200
       (HistoryJson
          [\<lparr>h_generation =
              \<lparr>g_id = ustr ''a'', g_prompt = ustr ''first'', g_language = ustr ''Python'',
               g_code = ustr ''print(1)'', g_userId = None, g_createdAt = 7\<rparr>,
            h_user = None\<rparr>,
           \<lparr>h_generation =
              \<lparr>g_id = ustr ''bb'', g_prompt = ustr ''second'', g_language = ustr ''Python'',
               g_code = ustr ''print(2)'', g_userId = None, g_createdAt = 7\<rparr>,
            h_user = None\<rparr>]
          \<lparr>p_page = Num 1, p_limit = Num 10, p_total = 2, p_totalPages = Num 1,
           p_hasNext = False, p_hasPrev = False\<rparr>) \<and>
   fst (getHistory (gw_up\<lparr>tie_rank := longer_id_first\<rparr>)
          \<lparr>q_page = None, q_limit = None, q_language = None\<rparr> store_tied) =
     Response 200
       (HistoryJson
          [\<lparr>h_generation =
              \<lparr>g_id = ustr ''bb'', g_prompt = ustr ''second'', g_language = ustr ''Python'',
               g_code = ustr ''print(2)'', g_userId = None, g_createdAt = 7\<rparr>,
            h_user = None\<rparr>,
           \<lparr>h_generation =
              \<lparr>g_id = ustr ''a'', g_prompt = ustr ''first'', g_language = ustr ''Python'',
               g_code = ustr ''print(1)'', g_userId = None, g_createdAt = 7\<rparr>,
            h_user = None\<rparr>]
          \<lparr>p_page = Num 1, p_limit = Num 10, p_total = 2, p_totalPages = Num 1,
           p_hasNext = False, p_hasPrev = False\<rparr>) \<and>
   getHistory (gw_up\<lparr>tie_rank := longer_id_first\<rparr>)
     \<lparr>q_page = None, q_limit = None, q_language = None\<rparr> store_tied \<noteq>
   getHistory gw_up \<lparr>q_page = None, q_limit = None, q_language = None\<rparr> store_tied"
proof -
  have "\<lceil>real 2 / real_of_int 10\<rceil> = 1" by (rule ceiling_unique) simp_all
  then have "ceilOfQuotient 2 (Num 10) = Num 1"
    using ceilOfQuotient_exact [of 2 10] by simp
  then have pages: "ceilOfQuotient (Suc (Suc 0)) (Num 10) = Num 1"
    by (simp only: numeral_2_eq_2)
  have skip: "historySkip (Num 1) (Num 10) = Num 0"
    using historySkip_exact [of 1 10] by simp
  have plain: "fst (getHistory gw_up \<lparr>q_page = None, q_limit = None, q_language = None\<rparr> store_tied) =
     Response 200
       (HistoryJson
          [\<lparr>h_generation =
              \<lparr>g_id = ustr ''a'', g_prompt = ustr ''first'', g_language = ustr ''Python'',
               g_code = ustr ''print(1)'', g_userId = None, g_createdAt = 7\<rparr>,
            h_user = None\<rparr>,
           \<lparr>h_generation =
              \<lparr>g_id = ustr ''bb'', g_prompt = ustr ''second'', g_language = ustr ''Python'',
               g_code = ustr ''print(2)'', g_userId = None, g_createdAt = 7\<rparr>,
            h_user = None\<rparr>]
          \<lparr>p_page = Num 1, p_limit = Num 10, p_total = 2, p_totalPages = Num 1,
           p_hasNext = False, p_hasPrev = False\<rparr>)"
    by (simp add: getHistory_def orDefault_absent truthyString_def
        promiseAll_def generation_count_def generation_findMany_def gw_up_def store_tied_def
        orderByCreatedAtDesc_def matches_def skipRows_def takeRows_def includeUser_def
        pages skip Let_def del: ceilOfQuotient.simps)
  have ranked: "fst (getHistory (gw_up\<lparr>tie_rank := longer_id_first\<rparr>)
          \<lparr>q_page = None, q_limit = None, q_language = None\<rparr> store_tied) =
     Response 200
       (HistoryJson
          [\<lparr>h_generation =
              \<lparr>g_id = ustr ''bb'', g_prompt = ustr ''second'', g_language = ustr ''Python'',
               g_code = ustr ''print(2)'', g_userId = None, g_createdAt = 7\<rparr>,
            h_user = None\<rparr>,
           \<lparr>h_generation =
              \<lparr>g_id = ustr ''a'', g_prompt = ustr ''first'', g_language = ustr ''Python'',
               g_code = ustr ''print(1)'', g_userId = None, g_createdAt = 7\<rparr>,
            h_user = None\<rparr>]
          \<lparr>p_page = Num 1, p_limit = Num 10, p_total = 2, p_totalPages = Num 1,
           p_hasNext = False, p_hasPrev = False\<rparr>)"
    by (simp add: getHistory_def orDefault_absent truthyString_def
        promiseAll_def generation_count_def generation_findMany_def gw_up_def store_tied_def
        orderByCreatedAtDesc_def matches_def skipRows_def takeRows_def includeUser_def
        longer_id_first_def length_ustr pages skip Let_def del: ceilOfQuotient.simps)
  have "ustr ''a'' \<noteq> ustr ''bb''" by (simp add: ustr_def)
  with plain ranked have "fst (getHistory (gw_up\<lparr>tie_rank := longer_id_first\<rparr>)
          \<lparr>q_page = None, q_limit = None, q_language = None\<rparr> store_tied) \<noteq>
      fst (getHistory gw_up \<lparr>q_page = None, q_limit = None, q_language = None\<rparr> store_tied)"
    by simp
  then have "getHistory (gw_up\<lparr>tie_rank := longer_id_first\<rparr>)
     \<lparr>q_page = None, q_limit = None, q_language = None\<rparr> store_tied \<noteq>
   getHistory gw_up \<lparr>q_page = None, q_limit = None, q_language = None\<rparr> store_tied"
    by auto
  with plain ranked show ?thesis by simp
qed

section \<open>The history endpoint: lenient parsing\<close>

lemma parseInt_hex: "parseInt (ustr ''0xF'') = Num 15"
  by code_simp

lemma mathInt_three: "mathInt 10 (ustr ''3'') = 3"
  by (simp add: mathInt_def digitValue_def ustr_def)

lemma abc_no_digit: "ustr ''abc'' = [] \<or> \<not> isRadixDigit 10 (hd (ustr ''abc''))"
  by (simp add: ustr_def isRadixDigit_def digitValue_def)

lemma parseInt_large_prefix: "parseInt (ustr ''9007199254740993abc'') = Num 9007199254740992"
proof -
  have split: "ustr ''9007199254740993abc'' = ustr ''9007199254740993'' @ ustr ''abc''"
    by (simp add: ustr_def)
  show ?thesis
    unfolding split using parseInt_digit_prefix [OF large_digits abc_no_digit]
    by (simp add: mathInt_large roundToDouble_odd)
qed

text \<open>
  C10, as amended. When a \<open>page\<close> or \<open>limit\<close> value is a run of decimal digits of
  non-zero value at most \<open>2 ^ 53\<close>, followed by text that does not continue the run
  (\<open>3abc\<close>), \<open>parseInt\<close> yields the value of the run, and it is used: the default is not
  substituted, the request is answered exactly as the one with the digits alone, the page
  check does not reject it, and the limit check rejects it when the run's value exceeds
  100.
\<close>

theorem history_numeric_prefix:
  assumes "ds \<noteq> []" and "\<forall>c\<in>set ds. isRadixDigit 10 c"
    and "rest = [] \<or> \<not> isRadixDigit 10 (hd rest)"
    and "mathInt 10 ds \<noteq> 0" and "mathInt 10 ds \<le> 2 ^ 53"
  shows "parseInt (toString (Some (ds @ rest))) = Num (int (mathInt 10 ds)) \<and>
         orDefault (parseInt (toString (Some (ds @ rest)))) d = Num (int (mathInt 10 ds)) \<and>
         getHistory gw (q\<lparr>q_page := Some (ds @ rest)\<rparr>) s = getHistory gw (q\<lparr>q_page := Some ds\<rparr>) s \<and>
         getHistory gw (q\<lparr>q_limit := Some (ds @ rest)\<rparr>) s = getHistory gw (q\<lparr>q_limit := Some ds\<rparr>) s \<and>
         fst (getHistory gw (q\<lparr>q_page := Some (ds @ rest)\<rparr>) s) \<noteq>
           Response 400 (ErrorJson (ustr ''Page must be greater than 0'')) \<and>
         (\<not> numLess (orDefault (parseInt (toString (q_page q))) (Num 1)) (Num 1) \<longrightarrow>
          100 < mathInt 10 ds \<longrightarrow>
            fst (getHistory gw (q\<lparr>q_limit := Some (ds @ rest)\<rparr>) s) =
              Response 400 (ErrorJson (ustr ''Limit must be between 1 and 100'')))"
proof -
  let ?v = "int (mathInt 10 ds)"
  have exact: "roundToDouble ?v = Num ?v"
  proof (rule roundToDouble_exact)
    have "int (mathInt 10 ds) \<le> int (2 ^ 53)" using assms(5) by (simp only: of_nat_le_iff)
    then show "\<bar>?v\<bar> \<le> 2 ^ 53" by simp
  qed
  have parsed: "parseInt (ds @ rest) = Num ?v"
    using parseInt_digit_prefix [OF assms(1-4)] by (simp only: exact)
  have plain: "parseInt ds = Num ?v"
    using parseInt_digits_only [OF assms(1,2,4)] by (simp only: exact)
  have used: "orDefault (parseInt (ds @ rest)) d = Num ?v" for d
    using assms(4) by (simp add: parsed orDefault_def)
  have used_plain: "orDefault (parseInt ds) d = Num ?v" for d
    using assms(4) by (simp add: plain orDefault_def)
  have page_same:
    "getHistory gw (q\<lparr>q_page := Some (ds @ rest)\<rparr>) s = getHistory gw (q\<lparr>q_page := Some ds\<rparr>) s"
    by (simp add: getHistory_def toString_def used used_plain)
  have limit_same:
    "getHistory gw (q\<lparr>q_limit := Some (ds @ rest)\<rparr>) s = getHistory gw (q\<lparr>q_limit := Some ds\<rparr>) s"
    by (simp add: getHistory_def toString_def used used_plain)
  have pos: "1 \<le> ?v" using assms(4) by simp
  have page_ok: "fst (getHistory gw (q\<lparr>q_page := Some (ds @ rest)\<rparr>) s) \<noteq>
           Response 400 (ErrorJson (ustr ''Page must be greater than 0''))"
    using pos
    by (simp add: getHistory_def toString_def used Let_def ustr_def split: sum.splits prod.splits)
  have limit_checked: "fst (getHistory gw (q\<lparr>q_limit := Some (ds @ rest)\<rparr>) s) =
              Response 400 (ErrorJson (ustr ''Limit must be between 1 and 100''))"
    if "\<not> numLess (orDefault (parseInt (toString (q_page q))) (Num 1)) (Num 1)"
      and "100 < mathInt 10 ds"
    using that by (simp add: getHistory_def toString_def used Let_def)
  show ?thesis
    using parsed used page_same limit_same page_ok limit_checked
    by (simp add: toString_def)
qed

theorem history_numeric_prefix_witness:
  "parseInt (ustr ''3abc'') = Num 3 \<and>
   fst (getHistory gw_up \<lparr>q_page = Some (ustr ''3abc''), q_limit = None, q_language = None\<rparr> store_empty) =
     Response 200 (HistoryJson []
       \<lparr>p_page = Num 3, p_limit = Num 10, p_total = 0, p_totalPages = Num 0,
        p_hasNext = False, p_hasPrev = True\<rparr>)"
proof -
  have split: "ustr ''3abc'' = ustr ''3'' @ ustr ''abc''"
    by (simp add: ustr_def)
  have hyps: "ustr ''3'' \<noteq> []" "\<forall>c\<in>set (ustr ''3''). isRadixDigit 10 c"
    by (simp_all add: ustr_def isRadixDigit_def digitValue_def)
  have val: "mathInt 10 (ustr ''3'') \<noteq> 0" "mathInt 10 (ustr ''3'') \<le> 2 ^ 53"
    by (simp_all add: mathInt_three)
  have plain:
    "fst (getHistory gw_up \<lparr>q_page = Some (ustr ''3''), q_limit = None, q_language = None\<rparr> store_empty) =
     Response 200 (HistoryJson []
       \<lparr>p_page = Num 3, p_limit = Num 10, p_total = 0, p_totalPages = Num 0,
        p_hasNext = False, p_hasPrev = True\<rparr>)"
    using history_empty_store
            [of "\<lparr>q_page = Some (ustr ''3''), q_limit = None, q_language = None\<rparr>" 3]
    by (simp add: toString_def parseInt_undefined parseInt_three orDefault_def)
  from history_numeric_prefix
         [OF hyps abc_no_digit val, of "Num 1" gw_up
            "\<lparr>q_page = None, q_limit = None, q_language = None\<rparr>" store_empty]
  show ?thesis using plain by (simp add: split mathInt_three toString_def)
qed

text \<open>
  C10 as stated fails in two places. Where the digit \<open>0\<close> is followed by \<open>x\<close>,
  \<open>parseInt\<close> reads a hexadecimal number: \<open>page=0xF\<close> is page 15, which is neither the
  prefix \<open>0\<close> nor the default. And a run of digits whose value is above \<open>2 ^ 53\<close> is
  rounded to a double: \<open>page=9007199254740993abc\<close> is page 9007199254740992.
\<close>

theorem history_prefix_counterexample:
  "fst (getHistory gw_up \<lparr>q_page = Some (ustr ''0xF''), q_limit = None, q_language = None\<rparr> store_empty) =
     Response 200 (HistoryJson []
       \<lparr>p_page = Num 15, p_limit = Num 10, p_total = 0, p_totalPages = Num 0,
        p_hasNext = False, p_hasPrev = True\<rparr>) \<and>
   fst (getHistory gw_up
          \<lparr>q_page = Some (ustr ''9007199254740993abc''), q_limit = None, q_language = None\<rparr>
          store_empty) =
     Response 200 (HistoryJson []
       \<lparr>p_page = Num 9007199254740992, p_limit = Num 10, p_total = 0, p_totalPages = Num 0,
        p_hasNext = False, p_hasPrev = True\<rparr>)"
  using history_empty_store
          [of "\<lparr>q_page = Some (ustr ''0xF''), q_limit = None, q_language = None\<rparr>" 15]
        history_empty_store
          [of "\<lparr>q_page = Some (ustr ''9007199254740993abc''), q_limit = None, q_language = None\<rparr>"
              9007199254740992]
  by (simp add: toString_def parseInt_undefined parseInt_hex parseInt_large_prefix orDefault_def)

section \<open>The history endpoint: the page returned\<close>

lemma orderByCreatedAtDesc_desc:
  "sorted_wrt (\<lambda>a b. g_createdAt b \<le> g_createdAt a) (orderByCreatedAtDesc gw gs)"
proof -
  have "sorted (map (\<lambda>g. - g_createdAt g) (orderByCreatedAtDesc gw gs))"
    unfolding orderByCreatedAtDesc_def by (rule sorted_sort_key)
  then show ?thesis by (simp add: sorted_map)
qed

lemma orderByCreatedAtDesc_length: "length (orderByCreatedAtDesc gw gs) = length gs"
  by (simp add: orderByCreatedAtDesc_def)

lemma orderByCreatedAtDesc_mset: "mset (orderByCreatedAtDesc gw gs) = mset gs"
  by (simp add: orderByCreatedAtDesc_def)

lemma window_desc:
  "sorted_wrt (\<lambda>a b. g_createdAt b \<le> g_createdAt a)
     (take k (drop j (orderByCreatedAtDesc gw gs)))"
  by (intro sorted_wrt_take sorted_wrt_drop orderByCreatedAtDesc_desc)

lemma beyond_last_page:
  fixes n :: nat and limit page :: int
  assumes "1 \<le> limit" "\<lceil>real n / real_of_int limit\<rceil> < page"
  shows "n \<le> nat ((page - 1) * limit)"
proof -
  have "\<lceil>real n / real_of_int limit\<rceil> * limit \<le> (page - 1) * limit"
    using assms by (intro mult_right_mono) auto
  with ceiling_pages_cover [OF assms(1), of n] have "int n \<le> (page - 1) * limit" by linarith
  then show ?thesis by linarith
qed

text \<open>
  C7, as amended. For a request that passes validation, with \<open>page\<close> and \<open>limit\<close> the
  numbers read from the query, \<open>page * limit\<close> at most \<open>2 ^ 53\<close>, fewer than \<open>2 ^ 53\<close>
  matching generations, and a gateway whose reads succeed: the response is 200; its
  records are the matching generations in the order of the read, which is newest first,
  without the first \<open>(page - 1) * limit\<close> of them and cut after \<open>limit\<close>; \<open>total\<close> counts
  the matching generations; \<open>totalPages\<close> is the ceiling of \<open>total / limit\<close>, which is the
  one integer \<open>k\<close> with \<open>total \<le> k * limit < total + limit\<close>; \<open>hasNext\<close> is
  \<open>page < totalPages\<close> and \<open>hasPrev\<close> is \<open>1 < page\<close>; and a page beyond \<open>totalPages\<close> has no
  records. The store is not changed.
\<close>

theorem history_page:
  fixes gw :: gateway and q :: history_query and s :: store and page limit :: int
  assumes "orDefault (parseInt (toString (q_page q))) (Num 1) = Num page" and "1 \<le> page"
    and "orDefault (parseInt (toString (q_limit q))) (Num 10) = Num limit"
    and "1 \<le> limit" and "limit \<le> 100" and "page * limit \<le> 2 ^ 53"
    and "db_error gw GenerationCount = None" and "db_error gw GenerationFindMany = None"
    and "length (filter (matches (if truthyString (q_language q) then q_language q else None))
                   (generations s)) < 2 ^ 53"
  defines "matching \<equiv>
      filter (matches (if truthyString (q_language q) then q_language q else None)) (generations s)"
  defines "window \<equiv>
      take (nat limit) (drop (nat ((page - 1) * limit)) (orderByCreatedAtDesc gw matching))"
  defines "totalPages \<equiv> \<lceil>real (length matching) / real_of_int limit\<rceil>"
  shows "getHistory gw q s =
           (Response 200
              (HistoryJson (map (includeUser s) window)
                 \<lparr>p_page = Num page, p_limit = Num limit, p_total = length matching,
                  p_totalPages = Num totalPages, p_hasNext = (page < totalPages),
                  p_hasPrev = (1 < page)\<rparr>), s) \<and>
         length window \<le> nat limit \<and>
         sorted_wrt (\<lambda>a b. g_createdAt b \<le> g_createdAt a) window \<and>
         mset (orderByCreatedAtDesc gw matching) = mset matching \<and>
         int (length matching) \<le> totalPages * limit \<and>
         totalPages * limit < int (length matching) + limit \<and>
         (totalPages < page \<longrightarrow> window = [])"
proof -
  have skip: "historySkip (Num page) (Num limit) = Num ((page - 1) * limit)"
    by (rule historySkip_exact [OF assms(2,4,6)])
  have "(page - 1) * limit \<le> page * limit"
    using assms(4) by (intro mult_right_mono) simp_all
  with assms(6) have offset: "(page - 1) * limit < 2 ^ 63" by simp
  have pages: "ceilOfQuotient (length matching) (Num limit) = Num totalPages"
    unfolding totalPages_def matching_def by (rule ceilOfQuotient_exact [OF assms(9,4)])
  have resp: "getHistory gw q s =
           (Response 200
              (HistoryJson (map (includeUser s) window)
                 \<lparr>p_page = Num page, p_limit = Num limit, p_total = length matching,
                  p_totalPages = Num totalPages, p_hasNext = (page < totalPages),
                  p_hasPrev = (1 < page)\<rparr>), s)"
    using assms(1-5,7,8) pages offset
    by (simp add: getHistory_def Let_def promiseAll_def generation_count_def
        generation_findMany_def skipRows_def takeRows_def skip matching_def [symmetric]
        window_def del: ceilOfQuotient.simps)
  have len: "length window \<le> nat limit" by (simp add: window_def)
  have desc: "sorted_wrt (\<lambda>a b. g_createdAt b \<le> g_createdAt a) window"
    unfolding window_def by (rule window_desc)
  have empty: "window = []" if "totalPages < page"
  proof -
    from that have "length matching \<le> nat ((page - 1) * limit)"
      unfolding totalPages_def by (intro beyond_last_page assms(4))
    then show ?thesis by (simp add: window_def orderByCreatedAtDesc_length)
  qed
  show ?thesis
    using resp len desc empty orderByCreatedAtDesc_mset [of gw matching]
      ceiling_pages_cover [OF assms(4), of "length matching"]
      ceiling_pages_tight [OF assms(4), of "length matching"]
    by (simp add: totalPages_def)
qed

lemma store25_generations: "generations store25 = map generation_at [1..<26]"
  by (simp add: store25_def)

lemma store25_matching: "filter (matches None) (generations store25) = generations store25"
  by (simp add: matches_def)

lemma store25_ordered:
  "orderByCreatedAtDesc gw_up (generations store25) =
     map generation_at
       [25, 24, 23, 22, 21, 20, 19, 18, 17, 16, 15, 14, 13, 12, 11, 10, 9, 8, 7, 6, 5, 4, 3, 2, 1]"
  by code_simp

lemma store25_length: "length (generations store25) = 25"
  by (simp add: store25_generations)

lemma parse_examples:
  "orDefault (parseInt (toString (Some (ustr ''1'')))) (Num 1) = Num 1"
  "orDefault (parseInt (toString (Some (ustr ''4'')))) (Num 1) = Num 4"
  "orDefault (parseInt (toString (Some (ustr ''10'')))) (Num 10) = Num 10"
  "orDefault (parseInt (toString (Some (ustr ''3'')))) (Num 10) = Num 3"
  by code_simp+

text \<open>The two examples of the specification: 25 records, limit 10, pages 1 and 4.\<close>

theorem history_page_witness:
  "getHistory gw_up \<lparr>q_page = Some (ustr ''1''), q_limit = Some (ustr ''10''), q_language = None\<rparr> store25 =
     (Response 200
        (HistoryJson (map (includeUser store25) (map generation_at [25, 24, 23, 22, 21, 20, 19, 18, 17, 16]))
           \<lparr>p_page = Num 1, p_limit = Num 10, p_total = 25, p_totalPages = Num 3, p_hasNext = True,
            p_hasPrev = False\<rparr>), store25) \<and>
   getHistory gw_up \<lparr>q_page = Some (ustr ''4''), q_limit = Some (ustr ''10''), q_language = None\<rparr> store25 =
     (Response 200
        (HistoryJson []
           \<lparr>p_page = Num 4, p_limit = Num 10, p_total = 25, p_totalPages = Num 3, p_hasNext = False,
            p_hasPrev = True\<rparr>), store25)"
proof -
  have up: "db_error gw_up GenerationCount = None" "db_error gw_up GenerationFindMany = None"
    by (simp_all add: gw_up_def)
  have few: "length (filter (matches (if truthyString None then None else None))
                       (generations store25)) < 2 ^ 53"
    by (simp add: store25_matching store25_length)
  have pages: "\<lceil>(25 :: real) / 10\<rceil> = 3"
    by (rule ceiling_unique) simp_all
  have p1: "orDefault (parseInt (toString (q_page \<lparr>q_page = Some (ustr ''1''), q_limit = Some (ustr ''10''), q_language = None\<rparr>))) (Num 1) = Num 1"
    and p4: "orDefault (parseInt (toString (q_page \<lparr>q_page = Some (ustr ''4''), q_limit = Some (ustr ''10''), q_language = None\<rparr>))) (Num 1) = Num 4"
    and l1: "orDefault (parseInt (toString (q_limit \<lparr>q_page = Some (ustr ''1''), q_limit = Some (ustr ''10''), q_language = None\<rparr>))) (Num 10) = Num 10"
    and l4: "orDefault (parseInt (toString (q_limit \<lparr>q_page = Some (ustr ''4''), q_limit = Some (ustr ''10''), q_language = None\<rparr>))) (Num 10) = Num 10"
    by (simp_all add: parse_examples)
  from history_page [OF p1 _ l1 _ _ _ up, of store25]
  have one: "getHistory gw_up \<lparr>q_page = Some (ustr ''1''), q_limit = Some (ustr ''10''), q_language = None\<rparr> store25 =
     (Response 200
        (HistoryJson (map (includeUser store25) (map generation_at [25, 24, 23, 22, 21, 20, 19, 18, 17, 16]))
           \<lparr>p_page = Num 1, p_limit = Num 10, p_total = 25, p_totalPages = Num 3, p_hasNext = True,
            p_hasPrev = False\<rparr>), store25)"
    by (simp add: truthyString_def store25_matching store25_ordered store25_length pages)
  from history_page [OF p4 _ l4 _ _ _ up, of store25]
  have four: "getHistory gw_up \<lparr>q_page = Some (ustr ''4''), q_limit = Some (ustr ''10''), q_language = None\<rparr> store25 =
     (Response 200
        (HistoryJson []
           \<lparr>p_page = Num 4, p_limit = Num 10, p_total = 25, p_totalPages = Num 3, p_hasNext = False,
            p_hasPrev = True\<rparr>), store25)"
    by (simp add: truthyString_def store25_matching store25_ordered store25_length pages)
  from one four show ?thesis by simp
qed

text \<open>
  C7 as stated fails for a page above \<open>2 ^ 53\<close>. With \<open>page=9007199254740993\<close> and
  \<open>limit=3\<close> the page read, and echoed in the metadata, is 9007199254740992, and the number
  of records skipped is 27021597764222972, which is not \<open>(page - 1) * limit\<close> for the page
  asked for (27021597764222976) nor for the page read (27021597764222973).
\<close>

theorem history_page_rounding_counterexample:
  "getHistory gw_up
     \<lparr>q_page = Some (ustr ''9007199254740993''), q_limit = Some (ustr ''3''), q_language = None\<rparr>
     store25 =
     (Response 200
        (HistoryJson []
           \<lparr>p_page = Num 9007199254740992, p_limit = Num 3, p_total = 25, p_totalPages = Num 9,
            p_hasNext = False, p_hasPrev = True\<rparr>), store25) \<and>
   historySkip (orDefault (parseInt (toString (Some (ustr ''9007199254740993'')))) (Num 1))
               (orDefault (parseInt (toString (Some (ustr ''3'')))) (Num 10)) =
     Num 27021597764222972 \<and>
   (9007199254740993 - 1) * 3 = (27021597764222976 :: int) \<and>
   (9007199254740992 - 1) * 3 = (27021597764222973 :: int)"
proof -
  have page: "orDefault (parseInt (toString (Some (ustr ''9007199254740993'')))) (Num 1) =
      Num 9007199254740992"
    by (simp add: toString_def parseInt_large orDefault_def)
  have skip: "historySkip (Num 9007199254740992) (Num 3) = Num 27021597764222972"
    by (simp add: historySkip_def roundToDouble_exact roundToDouble_skip)
  have pages: "ceilOfQuotient 25 (Num 3) = Num 9"
  proof -
    have "\<lceil>real 25 / real_of_int 3\<rceil> = 9" by (rule ceiling_unique) simp_all
    with ceilOfQuotient_exact [of 25 3] show ?thesis by simp
  qed
  have resp: "getHistory gw_up
     \<lparr>q_page = Some (ustr ''9007199254740993''), q_limit = Some (ustr ''3''), q_language = None\<rparr>
     store25 =
     (Response 200
        (HistoryJson []
           \<lparr>p_page = Num 9007199254740992, p_limit = Num 3, p_total = 25, p_totalPages = Num 9,
            p_hasNext = False, p_hasPrev = True\<rparr>), store25)"
    by (simp add: getHistory_def page parse_examples skip truthyString_def promiseAll_def
        generation_count_def generation_findMany_def gw_up_def store25_matching store25_length
        skipRows_def takeRows_def orderByCreatedAtDesc_length pages Let_def
        del: ceilOfQuotient.simps)
  show ?thesis using resp by (simp add: page parse_examples skip)
qed

section \<open>The generation endpoint: validation\<close>

lemma typeof_string: "typeof v = ustr ''string'' \<longleftrightarrow> (\<exists>s. v = JStr s)"
  by (cases v) (simp_all add: ustr_def)

lemma empty_not_valid_language: "[] \<notin> set validLanguages"
  by (simp add: validLanguages_def ustr_def)

lemma trim_empty: "trim [] = []"
  by (simp add: trim_def trimStart_def trimEnd_def)

lemma validate_status: "validate b = Some r \<Longrightarrow> \<exists>m. r = Response 400 (ErrorJson m)"
  by (auto simp: validate_def Let_def split: if_splits)

lemma validate_None:
  "validate b = None \<longleftrightarrow>
     (\<exists>p. b_prompt b = JStr p \<and> trim p \<noteq> []) \<and>
     (\<exists>l. b_language b = JStr l \<and> l \<in> set validLanguages) \<and>
     (truthy (b_userId b) \<longrightarrow> (\<exists>u. b_userId b = JStr u))"
proof -
  have prompt: "(truthy (b_prompt b) \<and> typeof (b_prompt b) = ustr ''string'' \<and> trim (stringOf (b_prompt b)) \<noteq> [])
      \<longleftrightarrow> (\<exists>p. b_prompt b = JStr p \<and> trim p \<noteq> [])"
    by (auto simp: typeof_string trim_empty)
  have language: "(truthy (b_language b) \<and> typeof (b_language b) = ustr ''string'' \<and>
        stringOf (b_language b) \<in> set validLanguages)
      \<longleftrightarrow> (\<exists>l. b_language b = JStr l \<and> l \<in> set validLanguages)"
    using empty_not_valid_language by (auto simp: typeof_string)
  show ?thesis
    unfolding validate_def Let_def
    using prompt language by (auto simp: typeof_string)
qed

lemma validate_prompt:
  assumes "\<forall>p. b_prompt b = JStr p \<longrightarrow> trim p = []"
  shows "validate b =
    Some (Response 400 (ErrorJson (ustr ''Prompt is required and must be a non-empty string'')))"
proof -
  have "\<not> truthy (b_prompt b) \<or> typeof (b_prompt b) \<noteq> ustr ''string'' \<or>
      length (trim (stringOf (b_prompt b))) = 0"
    using assms by (cases "b_prompt b") (auto simp: ustr_def)
  then show ?thesis by (simp add: validate_def Let_def)
qed

lemma validate_language:
  assumes "\<forall>l. b_language b = JStr l \<longrightarrow> l \<notin> set validLanguages"
  shows "\<exists>m. validate b = Some (Response 400 (ErrorJson m))"
proof (cases "validate b")
  case None
  with assms show ?thesis by (auto simp: validate_None)
next
  case (Some r)
  with validate_status show ?thesis by blast
qed

lemma validate_userId:
  assumes "truthy (b_userId b)" and "\<forall>u. b_userId b \<noteq> JStr u"
  shows "\<exists>m. validate b = Some (Response 400 (ErrorJson m))"
proof (cases "validate b")
  case None
  with assms show ?thesis by (auto simp: validate_None)
next
  case (Some r)
  with validate_status show ?thesis by blast
qed

lemma find_user_None: "u \<notin> u_id ` set us \<Longrightarrow> find (\<lambda>x. u_id x = u) us = None"
  by (auto simp: find_None_iff)

lemma find_user_Some: "u \<in> u_id ` set us \<Longrightarrow> \<exists>x. find (\<lambda>x. u_id x = u) us = Some x"
  by (cases "find (\<lambda>x. u_id x = u) us") (auto simp: find_None_iff)

lemma checkUser_unknown:
  assumes "u \<noteq> []" and "u \<notin> u_id ` set (users s)" and "db_error gw UserFindUnique = None"
  shows "checkUser gw s (JStr u) = Inr (Some (Response 404 (ErrorJson (ustr ''User not found''))))"
  using assms by (simp add: checkUser_def user_findUnique_def find_user_None)

lemma checkUser_known:
  assumes "u \<noteq> []" and "u \<in> u_id ` set (users s)" and "db_error gw UserFindUnique = None"
  shows "checkUser gw s (JStr u) = Inr None"
  using assms(1,3) find_user_Some [OF assms(2)]
  by (auto simp: checkUser_def user_findUnique_def)

lemma checkUser_falsy: "\<not> truthy v \<Longrightarrow> checkUser gw s v = Inr None"
  by (simp add: checkUser_def)

text \<open>
  The checks that reject a request. A request whose prompt is not a string or is empty
  after trimming, whose language is not one of the four valid strings, or whose \<open>userId\<close>
  is truthy and not a string, is answered 400; a request with valid prompt and language
  whose \<open>userId\<close> is a non-empty string that no user has is answered 404 (when the lookup
  itself succeeds). In all four cases the store is unchanged, nothing is sent upstream and
  nothing is written: the only call made is the lookup of the user, in the last case.
\<close>

lemma generate_rejects_invalid:
  "((\<forall>p. b_prompt b = JStr p \<longrightarrow> trim p = []) \<longrightarrow>
      generateCode gw rt b s =
        (Response 400 (ErrorJson (ustr ''Prompt is required and must be a non-empty string'')), s, [])) \<and>
   ((\<forall>l. b_language b = JStr l \<longrightarrow> l \<notin> set validLanguages) \<longrightarrow>
      (\<exists>m. generateCode gw rt b s = (Response 400 (ErrorJson m), s, []))) \<and>
   (truthy (b_userId b) \<and> (\<forall>u. b_userId b \<noteq> JStr u) \<longrightarrow>
      (\<exists>m. generateCode gw rt b s = (Response 400 (ErrorJson m), s, []))) \<and>
   ((\<exists>p. b_prompt b = JStr p \<and> trim p \<noteq> []) \<and> (\<exists>l. b_language b = JStr l \<and> l \<in> set validLanguages) \<and>
    b_userId b = JStr u \<and> u \<noteq> [] \<and> u \<notin> u_id ` set (users s) \<and> db_error gw UserFindUnique = None \<longrightarrow>
      generateCode gw rt b s = (Response 404 (ErrorJson (ustr ''User not found'')), s, [UserLookup u]))"
proof -
  have prompt: "generateCode gw rt b s =
        (Response 400 (ErrorJson (ustr ''Prompt is required and must be a non-empty string'')), s, [])"
    if "\<forall>p. b_prompt b = JStr p \<longrightarrow> trim p = []"
    using validate_prompt [OF that] by (simp add: generateCode_def)
  have language: "\<exists>m. generateCode gw rt b s = (Response 400 (ErrorJson m), s, [])"
    if "\<forall>l. b_language b = JStr l \<longrightarrow> l \<notin> set validLanguages"
    using validate_language [OF that] by (auto simp: generateCode_def)
  have userId: "\<exists>m. generateCode gw rt b s = (Response 400 (ErrorJson m), s, [])"
    if "truthy (b_userId b)" and "\<forall>u. b_userId b \<noteq> JStr u"
    using validate_userId [OF that] by (auto simp: generateCode_def)
  have unknown: "generateCode gw rt b s = (Response 404 (ErrorJson (ustr ''User not found'')), s, [UserLookup u])"
    if "\<exists>p. b_prompt b = JStr p \<and> trim p \<noteq> []" and "\<exists>l. b_language b = JStr l \<and> l \<in> set validLanguages"
      and "b_userId b = JStr u" and "u \<noteq> []" and "u \<notin> u_id ` set (users s)"
      and "db_error gw UserFindUnique = None"
  proof -
    from that(1-3) have "validate b = None" by (simp add: validate_None)
    with checkUser_unknown [OF that(4-6)] that(3,4) show ?thesis
      by (simp add: generateCode_def Let_def)
  qed
  from prompt language userId unknown show ?thesis by blast
qed


lemma trim_blank: "trim (ustr ''   '') = []"
  by code_simp

lemma trim_say_hi: "trim (ustr '' say hi '') = ustr ''say hi''"
  by code_simp

lemma say_hi_nonempty: "ustr ''say hi'' \<noteq> []"
  by (simp add: ustr_def)

lemma python_valid: "ustr ''Python'' \<in> set validLanguages"
  by (simp add: validLanguages_def)

lemma generate_rejects_invalid_examples:
  "generateCode gw_up (rt_reply (reply_text (ustr ''print(1)'')))
      \<lparr>b_prompt = JStr (ustr ''   ''), b_language = JStr (ustr ''Python''), b_userId = JUndefined\<rparr>
      store_one_user =
     (Response 400 (ErrorJson (ustr ''Prompt is required and must be a non-empty string'')),
      store_one_user, []) \<and>
   generateCode gw_up (rt_reply (reply_text (ustr ''print(1)''))) (body_for (JStr (ustr ''u2'')))
      store_one_user =
     (Response 404 (ErrorJson (ustr ''User not found'')), store_one_user, [UserLookup (ustr ''u2'')])"
proof -
  have unknown: "ustr ''u2'' \<noteq> []" "ustr ''u2'' \<notin> u_id ` set (users store_one_user)"
    "db_error gw_up UserFindUnique = None"
    by (simp_all add: store_one_user_def gw_up_def ustr_def)
  have blank: "generateCode gw_up (rt_reply (reply_text (ustr ''print(1)'')))
      \<lparr>b_prompt = JStr (ustr ''   ''), b_language = JStr (ustr ''Python''), b_userId = JUndefined\<rparr>
      store_one_user =
     (Response 400 (ErrorJson (ustr ''Prompt is required and must be a non-empty string'')),
      store_one_user, [])"
    using generate_rejects_invalid
      [of "\<lparr>b_prompt = JStr (ustr ''   ''), b_language = JStr (ustr ''Python''), b_userId = JUndefined\<rparr>"
          gw_up "rt_reply (reply_text (ustr ''print(1)''))" store_one_user "[]"]
    by (simp add: trim_blank)
  have missing: "generateCode gw_up (rt_reply (reply_text (ustr ''print(1)''))) (body_for (JStr (ustr ''u2'')))
      store_one_user =
     (Response 404 (ErrorJson (ustr ''User not found'')), store_one_user, [UserLookup (ustr ''u2'')])"
    using generate_rejects_invalid
      [of "body_for (JStr (ustr ''u2''))" gw_up "rt_reply (reply_text (ustr ''print(1)''))"
          store_one_user "ustr ''u2''"]
      unknown
    by (simp add: body_for_def trim_say_hi say_hi_nonempty python_valid)
  from blank missing show ?thesis by simp
qed

lemma generatedCode_text:
  assumes "\<not> nullish data" and "candidateText data = JStr t"
  shows "generatedCode rt data = Inr (trim t)"
  using assms by (simp add: generatedCode_def typeof_string)

lemma generatedCode_empty:
  assumes "\<not> nullish data"
    and "nullish (candidateText data) \<or> (\<exists>t. candidateText data = JStr t \<and> trim t = [])"
  shows "generatedCode rt data = Inr []"
  using assms by (auto simp: generatedCode_def typeof_string)

lemma callUpstream_ok:
  assumes "fetch rt request = FetchResolved r" and "ok r"
  shows "callUpstream rt request = r_json r"
  using assms by (simp add: callUpstream_def)

lemma callUpstream_failed:
  assumes "fetch rt request = FetchResolved r" and "\<not> ok r"
  shows "callUpstream rt request = Inl (upstreamError rt r)"
  using assms by (simp add: callUpstream_def)

lemma upstreamError_no_status: "e_status (upstreamError rt r) = None"
  by (simp add: upstreamError_def Let_def typeError_def newError_def split: option.splits)

lemma handleError_payload: "\<exists>st err msg. handleError e = Response st (ErrorMessageJson err msg)"
  by (simp add: handleError_def split: option.splits)

lemma handleError_not_plain: "handleError e \<noteq> Response st (ErrorJson m)"
  using handleError_payload [of e] by auto

lemma handleError_no_status:
  assumes "e_status e = None"
  shows "status (handleError e) = 401 \<or> status (handleError e) = 429 \<or> status (handleError e) = 500"
  using assms by (simp add: handleError_def)

lemma handleError_generic:
  assumes "e_status e = None"
    and "\<not> messageIncludes e (ustr ''API_KEY_INVALID'')" and "\<not> messageIncludes e (ustr ''API key'')"
    and "\<not> messageIncludes e (ustr ''quota'')" and "\<not> messageIncludes e (ustr ''429'')"
  shows "handleError e =
    Response 500 (ErrorMessageJson (ustr ''Failed to generate code'')
      (messageOr e (ustr ''An unexpected error occurred'')))"
  using assms by (simp add: handleError_def)

lemma candidateText_example: "candidateText (candidates_with t) = JStr t"
  by (simp add: candidateText_def candidates_with_def optNamed_def optIndex0_def)

lemma candidates_not_nullish: "\<not> nullish (candidates_with t)"
  by (simp add: candidates_with_def)

lemma trim_print: "trim (ustr '' print(1) '') = ustr ''print(1)''"
  by code_simp

lemma print_nonempty: "ustr ''print(1)'' \<noteq> []"
  by (simp add: ustr_def)

lemma body_for_valid: "validate (body_for JUndefined) = None"
  by (simp add: validate_None body_for_def trim_say_hi say_hi_nonempty python_valid)

lemma validate_userId_irrelevant:
  "\<not> truthy v \<Longrightarrow> \<not> truthy w \<Longrightarrow> validate (b\<lparr>b_userId := v\<rparr>) = validate (b\<lparr>b_userId := w\<rparr>)"
  by (simp add: validate_def)

lemma generateCode_falsy_userId:
  assumes "\<not> truthy v" and "\<not> truthy w"
  shows "generateCode gw rt (b\<lparr>b_userId := v\<rparr>) s = generateCode gw rt (b\<lparr>b_userId := w\<rparr>) s"
  using assms validate_userId_irrelevant [OF assms, of b]
  by (cases "validate (b\<lparr>b_userId := w\<rparr>)") (simp_all add: generateCode_def checkUser_falsy Let_def)

lemma generateCode_no_lookup:
  assumes "\<not> truthy (b_userId b)"
  shows "UserLookup i \<notin> set (snd (snd (generateCode gw rt b s)))"
  using assms
  by (simp add: generateCode_def checkUser_falsy Let_def
      split: option.splits sum.splits prod.splits)

lemma generateCode_falsy_stored:
  assumes "\<not> truthy (b_userId b)" and "generateCode gw rt b s = (Response 200 (GenerationJson g), s', tr)"
  shows "g_userId g = None \<and> s' = s\<lparr>generations := generations s @ [g]\<rparr>"
proof (cases "validate b")
  case (Some r)
  with assms(2) validate_status [OF Some] show ?thesis
    by (auto simp: generateCode_def)
next
  case None
  show ?thesis
  proof (cases "callUpstream rt (fullPrompt (stringOf (b_language b)) (stringOf (b_prompt b)))")
    case (Inl e)
    with assms None handleError_payload [of e] show ?thesis
      by (auto simp: generateCode_def checkUser_falsy Let_def)
  next
    case (Inr data)
    show ?thesis
    proof (cases "generatedCode rt data")
      case (Inl e)
      with assms None Inr handleError_payload [of e] show ?thesis
        by (auto simp: generateCode_def checkUser_falsy Let_def)
    next
      case code: (Inr code)
      show ?thesis
      proof (cases "db_error gw GenerationCreate")
        case (Some e)
        with assms None Inr code handleError_payload [of e] show ?thesis
          by (auto simp: generateCode_def checkUser_falsy generation_create_def Let_def split: if_splits)
      next
        case no_fault: None
        with assms None Inr code show ?thesis
          by (auto simp: generateCode_def checkUser_falsy generation_create_def Let_def split: if_splits)
      qed
    qed
  qed
qed

lemma validate_falsy_userId:
  assumes "\<not> truthy (b_userId b)"
  shows "validate b \<noteq> Some (Response 400 (ErrorJson (ustr ''userId must be a string if provided'')))"
  using assms by (simp add: validate_def Let_def validLanguages_def ustr_def)

text \<open>
  C4. The claim is that a \<open>userId\<close> that is not a string is rejected with status 400. The
  two guards are \<open>if (userId && typeof userId !== 'string')\<close> and \<open>if (userId)\<close>: a
  \<open>userId\<close> that is falsy, such as the number \<open>0\<close>, \<open>false\<close> or \<open>null\<close>, passes both. The
  request is handled exactly as the one without a \<open>userId\<close>: it is never answered "userId
  must be a string if provided", no user is looked up, and when it is answered 200 a
  generation without a user has been stored.
\<close>

theorem generate_falsy_userId_accepted:
  assumes "\<not> truthy (b_userId b)"
  shows "generateCode gw rt b s = generateCode gw rt (b\<lparr>b_userId := JUndefined\<rparr>) s \<and>
         fst (generateCode gw rt b s) \<noteq>
           Response 400 (ErrorJson (ustr ''userId must be a string if provided'')) \<and>
         (\<forall>i. UserLookup i \<notin> set (snd (snd (generateCode gw rt b s)))) \<and>
         (\<forall>g. fst (generateCode gw rt b s) = Response 200 (GenerationJson g) \<longrightarrow>
            g_userId g = None \<and>
            fst (snd (generateCode gw rt b s)) = s\<lparr>generations := generations s @ [g]\<rparr>)"
proof -
  have "generateCode gw rt (b\<lparr>b_userId := b_userId b\<rparr>) s =
      generateCode gw rt (b\<lparr>b_userId := JUndefined\<rparr>) s"
    by (rule generateCode_falsy_userId [OF assms]) simp
  then have absent: "generateCode gw rt b s = generateCode gw rt (b\<lparr>b_userId := JUndefined\<rparr>) s"
    by simp
  have accepted: "fst (generateCode gw rt b s) \<noteq>
      Response 400 (ErrorJson (ustr ''userId must be a string if provided''))"
  proof (cases "validate b")
    case (Some r)
    with validate_falsy_userId [OF assms] show ?thesis
      by (simp add: generateCode_def)
  next
    case None
    with assms show ?thesis
      by (auto simp: generateCode_def checkUser_falsy Let_def handleError_not_plain
          split: sum.splits prod.splits if_splits)
  qed
  have no_lookup: "UserLookup i \<notin> set (snd (snd (generateCode gw rt b s)))" for i
    by (rule generateCode_no_lookup [OF assms])
  have stored: "g_userId g = None \<and>
      fst (snd (generateCode gw rt b s)) = s\<lparr>generations := generations s @ [g]\<rparr>"
    if "fst (generateCode gw rt b s) = Response 200 (GenerationJson g)" for g
  proof -
    obtain r s' tr where run: "generateCode gw rt b s = (r, s', tr)"
      by (cases "generateCode gw rt b s") auto
    with that have "generateCode gw rt b s = (Response 200 (GenerationJson g), s', tr)" by simp
    from generateCode_falsy_stored [OF assms this] run show ?thesis by simp
  qed
  from absent accepted no_lookup stored show ?thesis by blast
qed

text \<open>The request with \<open>userId: 0\<close>: the upstream is called and the generation is stored.\<close>

theorem generate_falsy_userId_accepted_witness:
  "generateCode gw_up (rt_reply (reply_text (ustr '' print(1) ''))) (body_for (JNum (Finite 0)))
      store_empty =
     (Response 200
        (GenerationJson
           \<lparr>g_id = ustr ''gen-1'', g_prompt = ustr ''say hi'', g_language = ustr ''Python'',
            g_code = ustr ''print(1)'', g_userId = None, g_createdAt = 1700000000000\<rparr>),
      \<lparr>users = [],
       generations =
         [\<lparr>g_id = ustr ''gen-1'', g_prompt = ustr ''say hi'', g_language = ustr ''Python'',
           g_code = ustr ''print(1)'', g_userId = None, g_createdAt = 1700000000000\<rparr>]\<rparr>,
      [UpstreamCall (fullPrompt (ustr ''Python'') (ustr '' say hi '')),
       GenerationCreateCall
         \<lparr>d_prompt = ustr ''say hi'', d_language = ustr ''Python'', d_code = ustr ''print(1)'',
          d_userId = None\<rparr>])"
proof -
  have absent:
    "generateCode gw_up (rt_reply (reply_text (ustr '' print(1) ''))) (body_for JUndefined) store_empty =
     (Response 200
        (GenerationJson
           \<lparr>g_id = ustr ''gen-1'', g_prompt = ustr ''say hi'', g_language = ustr ''Python'',
            g_code = ustr ''print(1)'', g_userId = None, g_createdAt = 1700000000000\<rparr>),
      \<lparr>users = [],
       generations =
         [\<lparr>g_id = ustr ''gen-1'', g_prompt = ustr ''say hi'', g_language = ustr ''Python'',
           g_code = ustr ''print(1)'', g_userId = None, g_createdAt = 1700000000000\<rparr>]\<rparr>,
      [UpstreamCall (fullPrompt (ustr ''Python'') (ustr '' say hi '')),
       GenerationCreateCall
         \<lparr>d_prompt = ustr ''say hi'', d_language = ustr ''Python'', d_code = ustr ''print(1)'',
          d_userId = None\<rparr>])"
    by code_simp
  have same: "(body_for (JNum (Finite 0)))\<lparr>b_userId := JUndefined\<rparr> = body_for JUndefined"
    by (simp add: body_for_def)
  have falsy: "\<not> truthy (b_userId (body_for (JNum (Finite 0))))"
    by (simp add: body_for_def)
  from generate_falsy_userId_accepted
         [OF falsy, of gw_up "rt_reply (reply_text (ustr '' print(1) ''))" store_empty]
  have "generateCode gw_up (rt_reply (reply_text (ustr '' print(1) ''))) (body_for (JNum (Finite 0)))
          store_empty =
        generateCode gw_up (rt_reply (reply_text (ustr '' print(1) ''))) (body_for JUndefined)
          store_empty"
    by (simp only: same)
  with absent show ?thesis by simp
qed

section \<open>The generation endpoint: a successful generation\<close>

text \<open>
  C5. A request with a prompt that is not empty after trimming, a valid language and a
  \<open>userId\<close> that is absent or is the identifier of an existing user, for which the
  upstream answers \<open>ok\<close> with a first candidate whose text is not empty after trimming,
  and whose create succeeds: the response is 200 with the new generation, which carries
  the identifier and the timestamp the store assigned, the trimmed prompt, the language
  as given, the trimmed text, and the \<open>userId\<close> or \<open>null\<close>. The store holds that one
  generation more, and the handler made one upstream call and one create.
\<close>

theorem generate_persists:
  fixes gw :: gateway and s :: store
  assumes "b_prompt b = JStr p" and "trim p \<noteq> []"
    and "b_language b = JStr l" and "l \<in> set validLanguages"
    and "b_userId b = JUndefined \<and> ref = None \<and> lookup = [] \<or>
         b_userId b = JStr u \<and> u \<noteq> [] \<and> ref = Some u \<and> lookup = [UserLookup u] \<and>
           u \<in> u_id ` set (users s) \<and> db_error gw UserFindUnique = None"
    and "fetch rt (fullPrompt l p) = FetchResolved r" and "ok r" and "r_json r = Inr data"
    and "\<not> nullish data" and "candidateText data = JStr t" and "trim t \<noteq> []"
    and "db_error gw GenerationCreate = None"
  defines "g \<equiv> \<lparr>g_id = new_id gw, g_prompt = trim p, g_language = l, g_code = trim t,
                  g_userId = ref, g_createdAt = now gw\<rparr>"
  shows "generateCode gw rt b s =
           (Response 200 (GenerationJson g),
            s\<lparr>generations := generations s @ [g]\<rparr>,
            lookup @ [UpstreamCall (fullPrompt l p),
                      GenerationCreateCall
                        \<lparr>d_prompt = trim p, d_language = l, d_code = trim t, d_userId = ref\<rparr>])"
proof -
  have valid: "validate b = None"
    using assms(1-5) by (auto simp: validate_None)
  have user: "checkUser gw s (b_userId b) = Inr None"
    using assms(5) by (auto simp: checkUser_falsy checkUser_known)
  have ref: "(if truthy (b_userId b) then Some (stringOf (b_userId b)) else None) = ref"
    and lookup: "(if truthy (b_userId b) then [UserLookup (stringOf (b_userId b))] else []) = lookup"
    using assms(5) by auto
  have up: "callUpstream rt (fullPrompt l p) = Inr data"
    using callUpstream_ok [OF assms(6,7)] assms(8) by simp
  have code: "generatedCode rt data = Inr (trim t)"
    by (rule generatedCode_text [OF assms(9,10)])
  show ?thesis
    using assms(11,12)
    by (simp add: generateCode_def Let_def valid user up code ref lookup assms(1,3)
        generation_create_def g_def)
qed


theorem generate_persists_witness:
  "generateCode gw_up (rt_reply (reply_text (ustr '' print(1) ''))) (body_for (JStr (ustr ''u1'')))
      store_one_user =
     (Response 200
        (GenerationJson
           \<lparr>g_id = ustr ''gen-1'', g_prompt = ustr ''say hi'', g_language = ustr ''Python'',
            g_code = ustr ''print(1)'', g_userId = Some (ustr ''u1''),
            g_createdAt = 1700000000000\<rparr>),
      store_one_user
        \<lparr>generations :=
           [\<lparr>g_id = ustr ''gen-1'', g_prompt = ustr ''say hi'', g_language = ustr ''Python'',
             g_code = ustr ''print(1)'', g_userId = Some (ustr ''u1''),
             g_createdAt = 1700000000000\<rparr>]\<rparr>,
      [UserLookup (ustr ''u1''), UpstreamCall (fullPrompt (ustr ''Python'') (ustr '' say hi '')),
       GenerationCreateCall
         \<lparr>d_prompt = ustr ''say hi'', d_language = ustr ''Python'', d_code = ustr ''print(1)'',
          d_userId = Some (ustr ''u1'')\<rparr>])"
proof -
  let ?r = "\<lparr>r_status = 200, r_statusText = ustr ''OK'',
             r_json = Inr (candidates_with (ustr '' print(1) ''))\<rparr>"
  have user: "b_userId (body_for (JStr (ustr ''u1''))) = JUndefined \<and> Some (ustr ''u1'') = None \<and>
        [UserLookup (ustr ''u1'')] = [] \<or>
      b_userId (body_for (JStr (ustr ''u1''))) = JStr (ustr ''u1'') \<and> ustr ''u1'' \<noteq> [] \<and>
        Some (ustr ''u1'') = Some (ustr ''u1'') \<and> [UserLookup (ustr ''u1'')] = [UserLookup (ustr ''u1'')] \<and>
        ustr ''u1'' \<in> u_id ` set (users store_one_user) \<and> db_error gw_up UserFindUnique = None"
    by (simp add: body_for_def store_one_user_def gw_up_def) (simp add: ustr_def)
  have "generateCode gw_up (rt_reply (reply_text (ustr '' print(1) ''))) (body_for (JStr (ustr ''u1'')))
      store_one_user =
     (Response 200
        (GenerationJson
           \<lparr>g_id = new_id gw_up, g_prompt = trim (ustr '' say hi ''), g_language = ustr ''Python'',
            g_code = trim (ustr '' print(1) ''), g_userId = Some (ustr ''u1''),
            g_createdAt = now gw_up\<rparr>),
      store_one_user
        \<lparr>generations := generations store_one_user @
           [\<lparr>g_id = new_id gw_up, g_prompt = trim (ustr '' say hi ''), g_language = ustr ''Python'',
            g_code = trim (ustr '' print(1) ''), g_userId = Some (ustr ''u1''),
            g_createdAt = now gw_up\<rparr>]\<rparr>,
      [UserLookup (ustr ''u1'')] @ [UpstreamCall (fullPrompt (ustr ''Python'') (ustr '' say hi '')),
       GenerationCreateCall
         \<lparr>d_prompt = trim (ustr '' say hi ''), d_language = ustr ''Python'',
          d_code = trim (ustr '' print(1) ''), d_userId = Some (ustr ''u1'')\<rparr>])"
  proof (rule generate_persists [where r = ?r and data = "candidates_with (ustr '' print(1) '')"
          and u = "ustr ''u1''"])
    show "b_prompt (body_for (JStr (ustr ''u1''))) = JStr (ustr '' say hi '')"
      by (simp add: body_for_def)
    show "trim (ustr '' say hi '') \<noteq> []"
      by (simp add: trim_say_hi say_hi_nonempty)
    show "b_language (body_for (JStr (ustr ''u1''))) = JStr (ustr ''Python'')"
      by (simp add: body_for_def)
    show "ustr ''Python'' \<in> set validLanguages"
      by (rule python_valid)
    show "b_userId (body_for (JStr (ustr ''u1''))) = JUndefined \<and> Some (ustr ''u1'') = None \<and>
        [UserLookup (ustr ''u1'')] = [] \<or>
      b_userId (body_for (JStr (ustr ''u1''))) = JStr (ustr ''u1'') \<and> ustr ''u1'' \<noteq> [] \<and>
        Some (ustr ''u1'') = Some (ustr ''u1'') \<and> [UserLookup (ustr ''u1'')] = [UserLookup (ustr ''u1'')] \<and>
        ustr ''u1'' \<in> u_id ` set (users store_one_user) \<and> db_error gw_up UserFindUnique = None"
      by (rule user)
    show "fetch (rt_reply (reply_text (ustr '' print(1) ''))) (fullPrompt (ustr ''Python'') (ustr '' say hi '')) =
        FetchResolved ?r"
      by (simp add: rt_reply_def reply_text_def)
    show "ok ?r" by (simp add: ok_def)
    show "r_json ?r = Inr (candidates_with (ustr '' print(1) ''))" by simp
    show "\<not> nullish (candidates_with (ustr '' print(1) ''))" by (rule candidates_not_nullish)
    show "candidateText (candidates_with (ustr '' print(1) '')) = JStr (ustr '' print(1) '')"
      by (rule candidateText_example)
    show "trim (ustr '' print(1) '') \<noteq> []"
      by (simp add: trim_print print_nonempty)
    show "db_error gw_up GenerationCreate = None"
      by (simp add: gw_up_def)
  qed
  then show ?thesis
    by (simp add: trim_say_hi trim_print gw_up_def store_one_user_def)
qed

section \<open>The generation endpoint: an empty generation\<close>

text \<open>
  C6, as amended. A request that passes validation and the user check, for which the
  upstream answers \<open>ok\<close> with a body that parses as JSON to a value other than \<open>null\<close>, whose
  first candidate has no text, or a text that is a string empty after trimming: the
  response is 500 with the single field \<open>error\<close>, the store is unchanged and no create is
  attempted. No response of the \<open>catch\<close> clause has that shape: those all carry a
  \<open>message\<close> as well.
\<close>

theorem generate_empty_text:
  assumes "validate b = None" and "checkUser gw s (b_userId b) = Inr None"
    and "fetch rt (fullPrompt (stringOf (b_language b)) (stringOf (b_prompt b))) = FetchResolved r"
    and "ok r" and "r_json r = Inr data" and "\<not> nullish data"
    and "nullish (candidateText data) \<or> (\<exists>t. candidateText data = JStr t \<and> trim t = [])"
  shows "fst (generateCode gw rt b s) = Response 500 (ErrorJson (ustr ''Failed to generate code'')) \<and>
         fst (snd (generateCode gw rt b s)) = s \<and>
         (\<forall>d. GenerationCreateCall d \<notin> set (snd (snd (generateCode gw rt b s)))) \<and>
         (\<forall>e. handleError e \<noteq> Response 500 (ErrorJson (ustr ''Failed to generate code'')))"
proof -
  have up: "callUpstream rt (fullPrompt (stringOf (b_language b)) (stringOf (b_prompt b))) = Inr data"
    using callUpstream_ok [OF assms(3,4)] assms(5) by simp
  have code: "generatedCode rt data = Inr []"
    by (rule generatedCode_empty [OF assms(6,7)])
  have run: "generateCode gw rt b s =
      (Response 500 (ErrorJson (ustr ''Failed to generate code'')), s,
       (if truthy (b_userId b) then [UserLookup (stringOf (b_userId b))] else []) @
       [UpstreamCall (fullPrompt (stringOf (b_language b)) (stringOf (b_prompt b)))])"
    by (simp add: generateCode_def Let_def assms(1,2) up code)
  have distinct: "handleError e \<noteq> Response 500 (ErrorJson (ustr ''Failed to generate code''))" for e
    by (rule handleError_not_plain)
  from run distinct show ?thesis by simp
qed

theorem generate_empty_text_witness:
  "fst (generateCode gw_up (rt_reply (reply_text (ustr ''   ''))) (body_for JUndefined) store_empty) =
     Response 500 (ErrorJson (ustr ''Failed to generate code'')) \<and>
   fst (snd (generateCode gw_up (rt_reply (reply_text (ustr ''   ''))) (body_for JUndefined) store_empty)) =
     store_empty"
proof -
  let ?r = "\<lparr>r_status = 200, r_statusText = ustr ''OK'', r_json = Inr (candidates_with (ustr ''   ''))\<rparr>"
  have "fst (generateCode gw_up (rt_reply (reply_text (ustr ''   ''))) (body_for JUndefined) store_empty) =
     Response 500 (ErrorJson (ustr ''Failed to generate code'')) \<and>
   fst (snd (generateCode gw_up (rt_reply (reply_text (ustr ''   ''))) (body_for JUndefined) store_empty)) =
     store_empty \<and>
   (\<forall>d. GenerationCreateCall d \<notin>
      set (snd (snd (generateCode gw_up (rt_reply (reply_text (ustr ''   ''))) (body_for JUndefined) store_empty)))) \<and>
   (\<forall>e. handleError e \<noteq> Response 500 (ErrorJson (ustr ''Failed to generate code'')))"
  proof (rule generate_empty_text [where r = ?r and data = "candidates_with (ustr ''   '')"])
    show "validate (body_for JUndefined) = None" by (rule body_for_valid)
    show "checkUser gw_up store_empty (b_userId (body_for JUndefined)) = Inr None"
      by (simp add: checkUser_falsy body_for_def)
    show "fetch (rt_reply (reply_text (ustr ''   '')))
        (fullPrompt (stringOf (b_language (body_for JUndefined))) (stringOf (b_prompt (body_for JUndefined)))) =
        FetchResolved ?r"
      by (simp add: rt_reply_def reply_text_def)
    show "ok ?r" by (simp add: ok_def)
    show "r_json ?r = Inr (candidates_with (ustr ''   ''))" by simp
    show "\<not> nullish (candidates_with (ustr ''   ''))" by (rule candidates_not_nullish)
    show "nullish (candidateText (candidates_with (ustr ''   ''))) \<or>
        (\<exists>t. candidateText (candidates_with (ustr ''   '')) = JStr t \<and> trim t = [])"
      by (simp add: candidateText_example trim_blank)
  qed
  then show ?thesis by simp
qed


text \<open>
  C6 as stated fails where the body of the \<open>ok\<close> response has no text because it is the
  JSON value \<open>null\<close>, or because it is not JSON: reading \<open>data.candidates\<close> throws, or
  \<open>response.json()\<close> rejects, and the answer is the one of the \<open>catch\<close> clause for an
  unrecognised error, with the two fields \<open>error\<close> and \<open>message\<close>.
\<close>

theorem generate_null_body_counterexample:
  "generateCode gw_up (rt_reply (reply_raw 200 (ustr ''OK'') (Inr JNull))) (body_for JUndefined)
      store_empty =
     (Response 500
        (ErrorMessageJson (ustr ''Failed to generate code'')
           (ustr ''Cannot read properties of null (reading 'candidates')'')),
      store_empty, [UpstreamCall (fullPrompt (ustr ''Python'') (ustr '' say hi ''))]) \<and>
   generateCode gw_up (rt_reply (reply_raw 200 (ustr ''OK'') (Inl syntaxError))) (body_for JUndefined)
      store_empty =
     (Response 500
        (ErrorMessageJson (ustr ''Failed to generate code'')
           (ustr ''Unexpected token < in JSON at position 0'')),
      store_empty, [UpstreamCall (fullPrompt (ustr ''Python'') (ustr '' say hi ''))])"
  by code_simp

section \<open>The generation endpoint: an empty userId\<close>

text \<open>
  C9. With a valid prompt and language and \<open>userId\<close> the empty string, the handler does
  exactly what it does when \<open>userId\<close> is absent: it makes no lookup of a user, it does not
  answer "User not found", and when it answers 200 the generation it stored has no user.
\<close>

theorem generate_empty_userId:
  assumes "b_prompt b = JStr p" and "trim p \<noteq> []"
    and "b_language b = JStr l" and "l \<in> set validLanguages"
    and "b_userId b = JStr []"
  shows "generateCode gw rt b s = generateCode gw rt (b\<lparr>b_userId := JUndefined\<rparr>) s \<and>
         (\<forall>i. UserLookup i \<notin> set (snd (snd (generateCode gw rt b s)))) \<and>
         fst (generateCode gw rt b s) \<noteq> Response 404 (ErrorJson (ustr ''User not found'')) \<and>
         (\<forall>g. fst (generateCode gw rt b s) = Response 200 (GenerationJson g) \<longrightarrow>
            g_userId g = None \<and>
            fst (snd (generateCode gw rt b s)) = s\<lparr>generations := generations s @ [g]\<rparr>)"
proof -
  have falsy: "\<not> truthy (b_userId b)" using assms(5) by simp
  have "generateCode gw rt (b\<lparr>b_userId := JStr []\<rparr>) s = generateCode gw rt (b\<lparr>b_userId := JUndefined\<rparr>) s"
    by (rule generateCode_falsy_userId) simp_all
  moreover have "b\<lparr>b_userId := JStr []\<rparr> = b" using assms(5) by simp
  ultimately have absent: "generateCode gw rt b s = generateCode gw rt (b\<lparr>b_userId := JUndefined\<rparr>) s"
    by simp
  have no_lookup: "UserLookup i \<notin> set (snd (snd (generateCode gw rt b s)))" for i
    by (rule generateCode_no_lookup [OF falsy])
  have valid: "validate b = None"
    using assms by (simp add: validate_None)
  have not_404: "fst (generateCode gw rt b s) \<noteq> Response 404 (ErrorJson (ustr ''User not found''))"
  proof
    assume "fst (generateCode gw rt b s) = Response 404 (ErrorJson (ustr ''User not found''))"
    then show False
      using valid falsy
      by (auto simp: generateCode_def checkUser_falsy Let_def handleError_not_plain
          split: sum.splits prod.splits if_splits)
  qed
  have stored: "g_userId g = None \<and>
      fst (snd (generateCode gw rt b s)) = s\<lparr>generations := generations s @ [g]\<rparr>"
    if "fst (generateCode gw rt b s) = Response 200 (GenerationJson g)" for g
  proof -
    obtain r s' tr where run: "generateCode gw rt b s = (r, s', tr)"
      by (cases "generateCode gw rt b s") auto
    with that have "generateCode gw rt b s = (Response 200 (GenerationJson g), s', tr)" by simp
    from generateCode_falsy_stored [OF falsy this] run show ?thesis by simp
  qed
  from absent no_lookup not_404 stored show ?thesis by blast
qed

theorem generate_empty_userId_witness:
  "generateCode gw_up (rt_reply (reply_text (ustr '' print(1) ''))) (body_for (JStr [])) store_one_user =
   generateCode gw_up (rt_reply (reply_text (ustr '' print(1) ''))) (body_for JUndefined) store_one_user \<and>
   fst (generateCode gw_up (rt_reply (reply_text (ustr '' print(1) ''))) (body_for (JStr [])) store_one_user) =
     Response 200
       (GenerationJson
          \<lparr>g_id = ustr ''gen-1'', g_prompt = ustr ''say hi'', g_language = ustr ''Python'',
           g_code = ustr ''print(1)'', g_userId = None, g_createdAt = 1700000000000\<rparr>)"
proof -
  have absent: "fst (generateCode gw_up (rt_reply (reply_text (ustr '' print(1) ''))) (body_for JUndefined) store_one_user) =
     Response 200
       (GenerationJson
          \<lparr>g_id = ustr ''gen-1'', g_prompt = ustr ''say hi'', g_language = ustr ''Python'',
           g_code = ustr ''print(1)'', g_userId = None, g_createdAt = 1700000000000\<rparr>)"
    by code_simp
  have same: "(body_for (JStr []))\<lparr>b_userId := JUndefined\<rparr> = body_for JUndefined"
    by (simp add: body_for_def)
  from generate_empty_userId
         [of "body_for (JStr [])" "ustr '' say hi ''" "ustr ''Python''" gw_up
             "rt_reply (reply_text (ustr '' print(1) ''))" store_one_user]
  have "generateCode gw_up (rt_reply (reply_text (ustr '' print(1) ''))) (body_for (JStr [])) store_one_user =
   generateCode gw_up (rt_reply (reply_text (ustr '' print(1) ''))) (body_for JUndefined) store_one_user"
    by (simp add: body_for_def trim_say_hi say_hi_nonempty python_valid)
  with absent show ?thesis by simp
qed


section \<open>The generation endpoint: upstream failures\<close>

lemma generateCode_upstream_failed:
  assumes "validate b = None" and "checkUser gw s (b_userId b) = Inr None"
    and "fetch rt (fullPrompt (stringOf (b_language b)) (stringOf (b_prompt b))) = FetchResolved r"
    and "\<not> ok r"
  shows "generateCode gw rt b s =
    (handleError (upstreamError rt r), s,
     (if truthy (b_userId b) then [UserLookup (stringOf (b_userId b))] else []) @
     [UpstreamCall (fullPrompt (stringOf (b_language b)) (stringOf (b_prompt b)))])"
  using assms(1,2) callUpstream_failed [OF assms(3,4)]
  by (simp add: generateCode_def Let_def)

text \<open>
  C2. The claim is that an upstream failure that is neither an invalid key nor a quota
  failure is answered with the upstream's status. The error thrown for a response that is
  not \<open>ok\<close> is \<open>new Error(message)\<close>: it has no \<open>status\<close>, so the branch of the \<open>catch\<close>
  clause that mirrors \<open>error.status\<close> is never taken for it. Whatever the upstream status,
  the response is 401, 429 or 500, and it is 500 with the upstream message when the message
  is not recognised.
\<close>

theorem generate_upstream_status_dropped:
  assumes "validate b = None" and "checkUser gw s (b_userId b) = Inr None"
    and "fetch rt (fullPrompt (stringOf (b_language b)) (stringOf (b_prompt b))) = FetchResolved r"
    and "\<not> ok r"
  shows "fst (generateCode gw rt b s) = handleError (upstreamError rt r) \<and>
         e_status (upstreamError rt r) = None \<and>
         (status (fst (generateCode gw rt b s)) = 401 \<or>
          status (fst (generateCode gw rt b s)) = 429 \<or>
          status (fst (generateCode gw rt b s)) = 500) \<and>
         (\<not> messageIncludes (upstreamError rt r) (ustr ''API_KEY_INVALID'') \<and>
          \<not> messageIncludes (upstreamError rt r) (ustr ''API key'') \<and>
          \<not> messageIncludes (upstreamError rt r) (ustr ''quota'') \<and>
          \<not> messageIncludes (upstreamError rt r) (ustr ''429'') \<longrightarrow>
            fst (generateCode gw rt b s) =
              Response 500
                (ErrorMessageJson (ustr ''Failed to generate code'')
                   (messageOr (upstreamError rt r) (ustr ''An unexpected error occurred''))))"
proof -
  have run: "fst (generateCode gw rt b s) = handleError (upstreamError rt r)"
    by (simp add: generateCode_upstream_failed [OF assms])
  have none: "e_status (upstreamError rt r) = None"
    by (rule upstreamError_no_status)
  from run handleError_no_status [OF none] handleError_generic [OF none] none
  show ?thesis by simp
qed

theorem generate_upstream_status_dropped_witness:
  "fst (generateCode gw_up (rt_reply (reply_error 503 (ustr ''Service Unavailable''))) (body_for JUndefined)
         store_empty) =
     Response 500 (ErrorMessageJson (ustr ''Failed to generate code'') (ustr ''Service Unavailable''))"
proof -
  let ?r = "\<lparr>r_status = 503, r_statusText = [],
             r_json = Inr (JObj [(ustr ''error'', JObj [(ustr ''message'', JStr (ustr ''Service Unavailable''))])])\<rparr>"
  let ?rt = "rt_reply (reply_error 503 (ustr ''Service Unavailable''))"
  have answer: "handleError (upstreamError ?rt ?r) =
      Response 500 (ErrorMessageJson (ustr ''Failed to generate code'') (ustr ''Service Unavailable''))"
    by code_simp
  have user: "checkUser gw_up store_empty (b_userId (body_for JUndefined)) = Inr None"
    by (simp add: checkUser_falsy body_for_def)
  have sent: "fetch ?rt
      (fullPrompt (stringOf (b_language (body_for JUndefined))) (stringOf (b_prompt (body_for JUndefined)))) =
      FetchResolved ?r"
    by (simp add: rt_reply_def reply_error_def)
  have failed: "\<not> ok ?r" by (simp add: ok_def)
  from generate_upstream_status_dropped [OF body_for_valid user sent failed] answer
  show ?thesis by simp
qed

lemma not_ok_429: "r_status r = 429 \<Longrightarrow> \<not> ok r"
  by (simp add: ok_def)

text \<open>
  C3. The claim is that an upstream answer with status 429 gives the quota response with
  status 429. The error thrown for a response that is not \<open>ok\<close> does not carry the
  status, so the \<open>catch\<close> clause can only look for \<open>quota\<close> or \<open>429\<close> in the message.
  When the upstream answers 429 and the message of the error has neither, the response is
  not the quota response: its status is 401 or 500, and it is the 500 of an unrecognised
  error when the message does not mention a key either. The store is unchanged and no
  create is attempted.
\<close>

theorem generate_quota_unrecognised:
  assumes "validate b = None" and "checkUser gw s (b_userId b) = Inr None"
    and "fetch rt (fullPrompt (stringOf (b_language b)) (stringOf (b_prompt b))) = FetchResolved r"
    and "r_status r = 429"
    and "\<not> messageIncludes (upstreamError rt r) (ustr ''quota'')"
    and "\<not> messageIncludes (upstreamError rt r) (ustr ''429'')"
  shows "status (fst (generateCode gw rt b s)) \<noteq> 429 \<and>
         (status (fst (generateCode gw rt b s)) = 401 \<or>
          status (fst (generateCode gw rt b s)) = 500) \<and>
         (\<not> messageIncludes (upstreamError rt r) (ustr ''API_KEY_INVALID'') \<and>
          \<not> messageIncludes (upstreamError rt r) (ustr ''API key'') \<longrightarrow>
            fst (generateCode gw rt b s) =
              Response 500
                (ErrorMessageJson (ustr ''Failed to generate code'')
                   (messageOr (upstreamError rt r) (ustr ''An unexpected error occurred'')))) \<and>
         fst (snd (generateCode gw rt b s)) = s \<and>
         (\<forall>d. GenerationCreateCall d \<notin> set (snd (snd (generateCode gw rt b s))))"
proof -
  note run = generateCode_upstream_failed [OF assms(1-3) not_ok_429 [OF assms(4)]]
  have none: "e_status (upstreamError rt r) = None"
    by (rule upstreamError_no_status)
  have store: "fst (snd (generateCode gw rt b s)) = s"
    and trace: "GenerationCreateCall d \<notin> set (snd (snd (generateCode gw rt b s)))" for d
    by (simp_all add: run)
  have answer: "fst (generateCode gw rt b s) = handleError (upstreamError rt r)"
    by (simp add: run)
  have st: "status (handleError (upstreamError rt r)) = 401 \<or>
      status (handleError (upstreamError rt r)) = 500"
    using assms(5,6) none by (simp add: handleError_def)
  have generic: "handleError (upstreamError rt r) =
      Response 500
        (ErrorMessageJson (ustr ''Failed to generate code'')
           (messageOr (upstreamError rt r) (ustr ''An unexpected error occurred'')))"
    if "\<not> messageIncludes (upstreamError rt r) (ustr ''API_KEY_INVALID'')"
      and "\<not> messageIncludes (upstreamError rt r) (ustr ''API key'')"
    by (rule handleError_generic [OF none that assms(5,6)])
  from st have not_quota: "status (handleError (upstreamError rt r)) \<noteq> 429" by auto
  from store trace st generic not_quota show ?thesis
    by (simp add: answer)
qed

text \<open>
  Three answers of the upstream with status 429: a body with the message "Too Many
  Requests", the body \<open>null\<close>, and a body that is not JSON with the status text "Too Many
  Requests". Each is answered 500.
\<close>

theorem generate_quota_unrecognised_witness:
  "generateCode gw_up (rt_reply (reply_error 429 (ustr ''Too Many Requests''))) (body_for JUndefined)
      store_empty =
     (Response 500 (ErrorMessageJson (ustr ''Failed to generate code'') (ustr ''Too Many Requests'')),
      store_empty, [UpstreamCall (fullPrompt (ustr ''Python'') (ustr '' say hi ''))]) \<and>
   generateCode gw_up (rt_reply (reply_raw 429 (ustr ''Too Many Requests'') (Inr JNull)))
      (body_for JUndefined) store_empty =
     (Response 500
        (ErrorMessageJson (ustr ''Failed to generate code'')
           (ustr ''Cannot read properties of null (reading 'error')'')),
      store_empty, [UpstreamCall (fullPrompt (ustr ''Python'') (ustr '' say hi ''))]) \<and>
   generateCode gw_up (rt_reply (reply_raw 429 (ustr ''Too Many Requests'') (Inl syntaxError)))
      (body_for JUndefined) store_empty =
     (Response 500 (ErrorMessageJson (ustr ''Failed to generate code'') (ustr ''Too Many Requests'')),
      store_empty, [UpstreamCall (fullPrompt (ustr ''Python'') (ustr '' say hi ''))])"
proof -
  let ?r = "\<lparr>r_status = 429, r_statusText = [],
             r_json = Inr (JObj [(ustr ''error'', JObj [(ustr ''message'', JStr (ustr ''Too Many Requests''))])])\<rparr>"
  let ?rt = "rt_reply (reply_error 429 (ustr ''Too Many Requests''))"
  let ?run = "generateCode gw_up ?rt (body_for JUndefined) store_empty"
  have user: "checkUser gw_up store_empty (b_userId (body_for JUndefined)) = Inr None"
    by (simp add: checkUser_falsy body_for_def)
  have sent: "fetch ?rt
      (fullPrompt (stringOf (b_language (body_for JUndefined))) (stringOf (b_prompt (body_for JUndefined)))) =
      FetchResolved ?r"
    by (simp add: rt_reply_def reply_error_def)
  have st: "r_status ?r = 429" by simp
  have error: "upstreamError ?rt ?r = newError (ustr ''Too Many Requests'')"
    by code_simp
  have unrecognised:
    "\<not> messageIncludes (upstreamError ?rt ?r) (ustr ''quota'')"
    "\<not> messageIncludes (upstreamError ?rt ?r) (ustr ''429'')"
    "\<not> messageIncludes (upstreamError ?rt ?r) (ustr ''API_KEY_INVALID'')"
    "\<not> messageIncludes (upstreamError ?rt ?r) (ustr ''API key'')"
    unfolding error by code_simp+
  have message: "messageOr (upstreamError ?rt ?r) (ustr ''An unexpected error occurred'') =
      ustr ''Too Many Requests''"
    unfolding error by code_simp
  have trace: "snd (snd ?run) = [UpstreamCall (fullPrompt (ustr ''Python'') (ustr '' say hi ''))]"
    by code_simp
  from generate_quota_unrecognised [OF body_for_valid user sent st unrecognised(1,2)]
    unrecognised(3,4)
  have "fst ?run =
      Response 500 (ErrorMessageJson (ustr ''Failed to generate code'') (ustr ''Too Many Requests''))"
    and "fst (snd ?run) = store_empty"
    by (simp_all add: message)
  with trace have first: "?run =
     (Response 500 (ErrorMessageJson (ustr ''Failed to generate code'') (ustr ''Too Many Requests'')),
      store_empty, [UpstreamCall (fullPrompt (ustr ''Python'') (ustr '' say hi ''))])"
    by (simp add: prod_eq_iff)
  have others:
   "generateCode gw_up (rt_reply (reply_raw 429 (ustr ''Too Many Requests'') (Inr JNull)))
      (body_for JUndefined) store_empty =
     (Response 500
        (ErrorMessageJson (ustr ''Failed to generate code'')
           (ustr ''Cannot read properties of null (reading 'error')'')),
      store_empty, [UpstreamCall (fullPrompt (ustr ''Python'') (ustr '' say hi ''))])"
   "generateCode gw_up (rt_reply (reply_raw 429 (ustr ''Too Many Requests'') (Inl syntaxError)))
      (body_for JUndefined) store_empty =
     (Response 500 (ErrorMessageJson (ustr ''Failed to generate code'') (ustr ''Too Many Requests'')),
      store_empty, [UpstreamCall (fullPrompt (ustr ''Python'') (ustr '' say hi ''))])"
    by code_simp+
  from first others show ?thesis by simp
qed

end
